theory Spec2Isabelle
  imports Complex_Main "HOL-Library.AList"
begin

section \<open>Python values used by the graph mapping service\<close>

text \<open>
  The service is Python. Its integers are unbounded (\<open>int\<close>). Its floats are modelled as
  exact rationals (\<open>rat\<close>): rounding of IEEE doubles is not represented, so every
  comparison below is the comparison of the exact quotients. Strings are \<open>string\<close>;
  \<open>str.lower\<close> is modelled on ASCII letters, the alphabet of hexadecimal addresses.
\<close>

definition lower_char :: "char \<Rightarrow> char" where
  "lower_char c =
     (let n = (of_char c :: nat) in if 65 \<le> n \<and> n \<le> 90 then char_of (n + 32) else c)"

definition lower :: "string \<Rightarrow> string" where
  "lower s = map lower_char s"

text \<open>\<open>str(n)\<close> for an integer, as the f-strings of the classifier print it.\<close>

fun str_nat :: "nat \<Rightarrow> string" where
  "str_nat n = (if n < 10 then [char_of (48 + n)] else str_nat (n div 10) @ [char_of (48 + n mod 10)])"

declare str_nat.simps [simp del]

definition str_int :: "int \<Rightarrow> string" where
  "str_int i = (if i < 0 then CHR ''-'' # str_nat (nat (- i)) else str_nat (nat i))"

section \<open>services/classification.py: AddressClassifier\<close>

text \<open>
  \<open>self.known_addresses\<close>: a dict from lowercase address to (entity type, confidence,
  name). The table below is the one built by \<open>__init__\<close>; the classifier's operations
  take the directory as an argument, since \<open>add_known_address\<close> can extend it.
\<close>

type_synonym directory = "string \<rightharpoonup> (string \<times> rat \<times> string)"

definition known_addresses_table :: "(string \<times> (string \<times> rat \<times> string)) list" where
  "known_addresses_table =
    [(''0x3f5ce5fbfe3e9af3971dd833d26ba9b5c936f0be'', (''CEX'', 95, ''Binance'')),
     (''0xd551234ae421e3bcba99a0da6d736074f22192ff'', (''CEX'', 95, ''Binance'')),
     (''0x564286362092d8e7936f0549571a803b203aaced'', (''CEX'', 95, ''Binance'')),
     (''0x0681d8db095565fe8a346fa0277bffde9c0edbbf'', (''CEX'', 95, ''Binance'')),
     (''0x32be343b94f860124dc4fee278fdcbd38c102d88'', (''CEX'', 95, ''Poloniex'')),
     (''0xb794f5ea0ba39494ce839613fffba74279579268'', (''CEX'', 95, ''Poloniex'')),
     (''0x267be1c1d684f78cb4f6a176c4911b741e4ffdc0'', (''CEX'', 95, ''Kraken'')),
     (''0xfa52274dd61e1643d2205169732f29114bc240b3'', (''CEX'', 95, ''Kraken'')),
     (''0x1522900b6dafac587d499a862861c0869be6e428'', (''CEX'', 95, ''KuCoin'')),
     (''0x2b5634c42055806a59e9107ed44d43c426e58258'', (''CEX'', 95, ''KuCoin'')),
     (''0x7a250d5630b4cf539739df2c5dacb4c659f2488d'', (''DEX'', 90, ''Uniswap V2 Router'')),
     (''0xe592427a0aece92de3edee1f18e0157c05861564'', (''DEX'', 90, ''Uniswap V3 Router'')),
     (''0x68b3465833fb72a70ecdf485e0e4c7bd8665fc45'', (''DEX'', 90, ''Uniswap Router'')),
     (''0xd9e1ce17f2641f24ae83637ab66a2cca9c378b9f'', (''DEX'', 90, ''SushiSwap Router'')),
     (''0x1111111254fb6c44bac0bed2854e76f90643097d'', (''DEX'', 85, ''1inch Router'')),
     (''0x8ba1f109551bd432803012645hac136c0cd747ef'', (''Mixer'', 85, ''Tornado Cash'')),
     (''0x47ce0c6ed5b0ce3d3a51fdb1c52dc66a7c3c2936'', (''Mixer'', 85, ''Tornado Cash'')),
     (''0x3154cf16ccdb4c6d922629664174b904d80f2c35'', (''Bridge'', 80, ''Base Bridge'')),
     (''0xa0b86a33e6c68c93d8b48fc5b41bc1ee0ba9f41d'', (''Bridge'', 80, ''Polygon Bridge''))]"

definition known_addresses :: directory where
  "known_addresses = map_of known_addresses_table"

text \<open>\<open>self.address_patterns\<close>.\<close>

definition high_frequency :: int where "high_frequency = 100"
definition consolidation :: int where "consolidation = 3"

text \<open>\<open>_classify_by_heuristics(address, transaction_count, daily_tx_count)\<close>.\<close>

definition classify_by_heuristics :: "string \<Rightarrow> int \<Rightarrow> int \<Rightarrow> string \<times> rat \<times> string option" where
  "classify_by_heuristics address transaction_count daily_tx_count =
     (if transaction_count > 10000 then
        (if daily_tx_count > 500
         then (''CEX'', 40,
               Some (''High volume: '' @ str_int transaction_count @ '' total, ''
                     @ str_int daily_tx_count @ ''/day''))
         else (''potential_endpoint'', 30,
               Some (''High historical volume: '' @ str_int transaction_count)))
      else if transaction_count > 1000 then
        (''potential_endpoint'', 25, Some (''Moderate volume: '' @ str_int transaction_count))
      else if transaction_count < 100 \<and> daily_tx_count < 5 then
        (''potential_endpoint'', 20, Some ''Low activity wallet'')
      else (''Unknown'', 0, None))"

text \<open>
  \<open>classify_address(address, transaction_count, daily_tx_count, times_seen_in_graph)\<close>
  returns (entity type, confidence score, details). Logging is not modelled.
\<close>

definition classify_address ::
  "directory \<Rightarrow> string \<Rightarrow> int \<Rightarrow> int \<Rightarrow> int \<Rightarrow> string \<times> rat \<times> string option" where
  "classify_address dir address transaction_count daily_tx_count times_seen_in_graph =
     (let address_lower = lower address in
      case dir address_lower of
        Some (entity_type, confidence, name) \<Rightarrow> (entity_type, confidence, Some name)
      | None \<Rightarrow>
          if daily_tx_count > high_frequency then
            (''high_frequency_service'', 60,
             Some (''High frequency: '' @ str_int daily_tx_count @ '' tx/day''))
          else if times_seen_in_graph \<ge> consolidation then
            (''consolidation_point'', 70,
             Some (''Seen '' @ str_int times_seen_in_graph @ '' times in graph''))
          else classify_by_heuristics address transaction_count daily_tx_count)"

text \<open>
  \<open>should_terminate_exploration(address, entity_type, confidence_score, transaction_count,
  outgoing_tx_count, cumulative_value_percentage)\<close>; the last three parameters default to
  0, 0 and 0.0 at a call that omits them.
\<close>

definition should_terminate_exploration ::
  "string \<Rightarrow> string \<Rightarrow> rat \<Rightarrow> int \<Rightarrow> int \<Rightarrow> rat \<Rightarrow> bool \<times> string" where
  "should_terminate_exploration address entity_type confidence_score transaction_count
       outgoing_tx_count cumulative_value_percentage =
     (if confidence_score > 70 \<and> entity_type \<in> set [''CEX'', ''DEX'', ''Mixer'']
        then (True, ''high_confidence_classification'')
      else if outgoing_tx_count > 200 then (True, ''high_transaction_volume'')
      else if cumulative_value_percentage < 5 then (True, ''insufficient_value_flow'')
      else if entity_type = ''high_frequency_service''
        then (True, ''high_frequency_service_detected'')
      else (False, ''''))"

section \<open>config.py and schemas.py\<close>

text \<open>
  The settings the engine reads. \<open>get_processing_limits\<close> copies the first five into
  \<open>self.limits\<close> (as \<open>max_nodes\<close>, \<open>max_api_calls\<close>, \<open>max_transactions_per_node\<close>,
  \<open>timeout_seconds\<close>, \<open>max_depth\<close>); the model reads the settings fields directly.
\<close>

record settings =
  max_nodes_per_graph :: int
  max_api_calls_per_incident :: int
  max_transactions_per_node :: int
  processing_timeout_seconds :: int
  max_depth :: int
  min_transaction_value_eth :: rat
  min_percentage_small_hack :: rat
  min_percentage_medium_hack :: rat
  min_percentage_large_hack :: rat
  reuse_threshold :: int

definition default_settings :: settings where
  "default_settings =
     \<lparr> max_nodes_per_graph = 500, max_api_calls_per_incident = 25,
       max_transactions_per_node = 5, processing_timeout_seconds = 30, max_depth = 8,
       min_transaction_value_eth = 5 / 100, min_percentage_small_hack = 1,
       min_percentage_medium_hack = 1 / 2, min_percentage_large_hack = 1 / 10,
       reuse_threshold = 3 \<rparr>"

text \<open>
  \<open>TransactionData\<close>. The field \<open>value\<close> is the decimal text of an integer number of wei;
  it is kept as that integer (\<open>value_wei\<close>), and \<open>float(tx.value)\<close> is its embedding in
  the rationals. A \<open>datetime\<close> is kept as its epoch seconds. The model is a pydantic
  \<open>BaseModel\<close> with these nine fields and no configuration: it has no field
  \<open>priority_score\<close> and accepts no attribute it does not declare.
\<close>

record TransactionData =
  block_number :: int
  timestamp :: "int option"
  from_address :: string
  to_address :: string
  value_wei :: int
  gas :: "int option"
  gas_used :: "int option"
  gas_price :: "int option"
  transaction_hash :: string

section \<open>services/etherscan.py\<close>

datatype exc =
    GraphProcessingError string
  | TimeoutError
  | EtherscanError
  | EtherscanRateLimitError
  | RetryError
  | ValueError
  | OtherException

text \<open>\<open>isinstance(e, EtherscanError)\<close>: \<open>EtherscanRateLimitError\<close> is a subclass.\<close>

definition is_etherscan_error :: "exc \<Rightarrow> bool" where
  "is_etherscan_error e = (e = EtherscanError \<or> e = EtherscanRateLimitError)"

text \<open>The outcome of a call: the value it returns or the exception it raises.\<close>

datatype 'a fetch = Returns 'a | Raises exc

text \<open>
  The Etherscan client. What the explorer answers is an unknown of the model:
  \<open>make_request es address start_block n\<close> is the outcome of the \<open>n\<close>-th execution of the body
  of \<open>_make_request\<close> for the transaction list of \<open>address\<close> from \<open>start_block\<close> (with
  \<open>offset=50\<close> and \<open>sort="asc"\<close>): the \<open>result\<close> list of the response, or the exception
  the body raises (it turns HTTP and network failures into \<open>EtherscanError\<close> or
  \<open>EtherscanRateLimitError\<close>). A cached response is a first execution that returns.
  \<open>normalize\<close> returns \<open>None\<close> where \<open>normalize_transaction\<close> raises.
\<close>

record 'raw etherscan_service =
  make_request :: "string \<Rightarrow> int \<Rightarrow> nat \<Rightarrow> 'raw list fetch"
  normalize :: "'raw \<Rightarrow> TransactionData option"

text \<open>
  The decorator of \<open>_make_request\<close>: \<open>@retry(stop=stop_after_attempt(3), wait=...,
  retry=retry_if_exception_type((httpx.RequestError, EtherscanError)))\<close>, without
  \<open>reraise=True\<close>. An execution that raises an \<open>EtherscanError\<close> is repeated; when the
  third one raises it too, tenacity raises its own \<open>RetryError\<close>. Any other exception
  leaves at once. The waits between the executions are not modelled.
\<close>

definition make_request_retried :: "(nat \<Rightarrow> 'a fetch) \<Rightarrow> 'a fetch" where
  "make_request_retried attempt =
     (case attempt 1 of
        Returns d \<Rightarrow> Returns d
      | Raises e1 \<Rightarrow>
          if \<not> is_etherscan_error e1 then Raises e1
          else (case attempt 2 of
                  Returns d \<Rightarrow> Returns d
                | Raises e2 \<Rightarrow>
                    if \<not> is_etherscan_error e2 then Raises e2
                    else (case attempt 3 of
                            Returns d \<Rightarrow> Returns d
                          | Raises e3 \<Rightarrow>
                              if \<not> is_etherscan_error e3 then Raises e3
                              else Raises RetryError)))"

text \<open>\<open>get_account_transactions(address, start_block, offset=50, sort="asc")\<close>.\<close>

definition get_account_transactions ::
  "'raw etherscan_service \<Rightarrow> string \<Rightarrow> int \<Rightarrow> 'raw list fetch" where
  "get_account_transactions es address start_block =
     make_request_retried (make_request es address start_block)"

text \<open>
  \<open>normalize_transaction(raw_tx)\<close> on a raw transaction whose values are strings.
  \<open>int(s, 16)\<close> is modelled on an optional \<open>0x\<close> prefix followed by hexadecimal digits,
  and \<open>int(s)\<close> on decimal digits; any other text is a \<open>ValueError\<close>.
\<close>

type_synonym raw_tx = "(string \<times> string) list"

definition hex_digit :: "char \<Rightarrow> int option" where
  "hex_digit c =
     (let n = (of_char c :: int) in
      if 48 \<le> n \<and> n \<le> 57 then Some (n - 48)
      else if 97 \<le> n \<and> n \<le> 102 then Some (n - 87)
      else if 65 \<le> n \<and> n \<le> 70 then Some (n - 55)
      else None)"

fun digits_value :: "int \<Rightarrow> (char \<Rightarrow> int option) \<Rightarrow> int \<Rightarrow> string \<Rightarrow> int option" where
  "digits_value base digit acc [] = Some acc"
| "digits_value base digit acc (c # cs) =
     (case digit c of None \<Rightarrow> None
      | Some d \<Rightarrow> digits_value base digit (acc * base + d) cs)"

definition int_base16 :: "string \<Rightarrow> int option" where
  "int_base16 s =
     (let body = (if take 2 s = ''0x'' \<or> take 2 s = ''0X'' then drop 2 s else s) in
      if body = [] then None else digits_value 16 hex_digit 0 body)"

definition dec_digit :: "char \<Rightarrow> int option" where
  "dec_digit c =
     (let n = (of_char c :: int) in if 48 \<le> n \<and> n \<le> 57 then Some (n - 48) else None)"

definition int_base10 :: "string \<Rightarrow> int option" where
  "int_base10 s = (if s = [] then None else digits_value 10 dec_digit 0 s)"

definition hex_to_int :: "string \<Rightarrow> int option" where
  "hex_to_int hex_str =
     (if hex_str = [] \<or> hex_str = ''0x'' \<or> hex_str = ''0x0'' then Some 0
      else int_base16 hex_str)"

definition raw_get :: "raw_tx \<Rightarrow> string \<Rightarrow> string \<Rightarrow> string" where
  "raw_get raw_tx key dflt = (case map_of raw_tx key of None \<Rightarrow> dflt | Some v \<Rightarrow> v)"

definition normalize_transaction :: "raw_tx \<Rightarrow> TransactionData option" where
  "normalize_transaction raw_tx =
     (let ts = (case map_of raw_tx ''timeStamp'' of None \<Rightarrow> None | Some s \<Rightarrow> int_base10 s) in
      case hex_to_int (raw_get raw_tx ''blockNumber'' ''0x0'') of None \<Rightarrow> None
      | Some bn \<Rightarrow>
      case hex_to_int (raw_get raw_tx ''value'' ''0x0'') of None \<Rightarrow> None
      | Some v \<Rightarrow>
      case hex_to_int (raw_get raw_tx ''gas'' ''0x0'') of None \<Rightarrow> None
      | Some g \<Rightarrow>
      case hex_to_int (raw_get raw_tx ''gasUsed'' ''0x0'') of None \<Rightarrow> None
      | Some gu \<Rightarrow>
      case hex_to_int (raw_get raw_tx ''gasPrice'' ''0x0'') of None \<Rightarrow> None
      | Some gp \<Rightarrow>
        Some \<lparr> block_number = bn, timestamp = ts,
               from_address = lower (raw_get raw_tx ''from'' ''''),
               to_address = (if raw_get raw_tx ''to'' '''' \<noteq> ''''
                             then lower (raw_get raw_tx ''to'' '''') else ''''),
               value_wei = v, gas = Some g, gas_used = Some gu, gas_price = Some gp,
               transaction_hash = raw_get raw_tx ''hash'' '''' \<rparr>)"

definition etherscan_client ::
  "(string \<Rightarrow> int \<Rightarrow> nat \<Rightarrow> raw_tx list fetch) \<Rightarrow> raw_tx etherscan_service" where
  "etherscan_client answer =
     \<lparr> make_request = answer, normalize = normalize_transaction \<rparr>"

section \<open>The working graph: a networkx DiGraph\<close>

text \<open>
  Node and edge attribute dictionaries, one field per key the service writes or reads.
  The outer \<open>option\<close> of a field is the presence of the key; a key that can hold
  \<open>None\<close> has a second \<open>option\<close>. The four keys every call of \<open>_add_graph_edge\<close> passes
  are plain fields. \<open>value_eth\<close> is the text of a number and is kept as that number.
\<close>

record node_data =
  n_depth_from_hack :: "int option"
  n_entity_type :: "string option"
  n_confidence_score :: "rat option"
  n_transaction_count :: "int option"
  n_classification_details :: "string option option"
  n_termination_reason :: "string option"
  n_manual_exploration_ready :: "bool option"
  n_consolidated_addresses :: "string list option"
  n_first_seen :: "int option"
  n_processed :: "bool option"

definition empty_node :: node_data where
  "empty_node =
     \<lparr> n_depth_from_hack = None, n_entity_type = None, n_confidence_score = None,
       n_transaction_count = None, n_classification_details = None,
       n_termination_reason = None, n_manual_exploration_ready = None,
       n_consolidated_addresses = None, n_first_seen = None, n_processed = None \<rparr>"

record edge_data =
  e_transaction_hash :: string
  e_value_eth :: rat
  e_priority_score :: int
  e_filter_reason :: string
  e_block_number :: "int option"
  e_timestamp :: "int option option"
  e_gas_used :: "int option option"
  e_gas_price :: "int option option"
  e_flow_percentage :: "rat option"
  e_importance :: "string option"

text \<open>
  A DiGraph keeps its nodes in a dict by address and its edges in dicts by source and
  target: one attribute dictionary per ordered pair of nodes. Both are association
  lists in insertion order here.
\<close>

record digraph =
  nodes :: "(string \<times> node_data) list"
  edges :: "((string \<times> string) \<times> edge_data) list"

definition empty_graph :: digraph where
  "empty_graph = \<lparr> nodes = [], edges = [] \<rparr>"

definition has_node :: "digraph \<Rightarrow> string \<Rightarrow> bool" where
  "has_node g n = (map_of (nodes g) n \<noteq> None)"

definition node_attrs :: "digraph \<Rightarrow> string \<Rightarrow> node_data" where
  "node_attrs g n = (case map_of (nodes g) n of None \<Rightarrow> empty_node | Some d \<Rightarrow> d)"

text \<open>\<open>G.add_node(n, **attr)\<close>: \<open>upd\<close> writes the keyword arguments into the node's dict.\<close>

definition add_node :: "digraph \<Rightarrow> string \<Rightarrow> (node_data \<Rightarrow> node_data) \<Rightarrow> digraph" where
  "add_node g n upd = g\<lparr> nodes := AList.update n (upd (node_attrs g n)) (nodes g) \<rparr>"

text \<open>\<open>d.update(attr)\<close> on an edge dict: the keys of \<open>new\<close> overwrite, the others stay.\<close>

definition pick :: "'a option \<Rightarrow> 'a option \<Rightarrow> 'a option" where
  "pick new old = (case new of None \<Rightarrow> old | Some x \<Rightarrow> Some x)"

definition update_edge_data :: "edge_data \<Rightarrow> edge_data \<Rightarrow> edge_data" where
  "update_edge_data old new =
     \<lparr> e_transaction_hash = e_transaction_hash new, e_value_eth = e_value_eth new,
       e_priority_score = e_priority_score new, e_filter_reason = e_filter_reason new,
       e_block_number = pick (e_block_number new) (e_block_number old),
       e_timestamp = pick (e_timestamp new) (e_timestamp old),
       e_gas_used = pick (e_gas_used new) (e_gas_used old),
       e_gas_price = pick (e_gas_price new) (e_gas_price old),
       e_flow_percentage = pick (e_flow_percentage new) (e_flow_percentage old),
       e_importance = pick (e_importance new) (e_importance old) \<rparr>"

text \<open>
  \<open>G.add_edge(u, v, **attr)\<close>: creates \<open>u\<close> and \<open>v\<close> when they are missing, then updates
  the dict of the pair \<open>(u, v)\<close> with the attributes, creating it when there is none.
\<close>

definition ensure_node :: "string \<Rightarrow> (string \<times> node_data) list \<Rightarrow> (string \<times> node_data) list" where
  "ensure_node n ns = (case map_of ns n of None \<Rightarrow> ns @ [(n, empty_node)] | Some d \<Rightarrow> ns)"

definition add_edge :: "digraph \<Rightarrow> string \<Rightarrow> string \<Rightarrow> edge_data \<Rightarrow> digraph" where
  "add_edge g u v attr =
     \<lparr> nodes = ensure_node v (ensure_node u (nodes g)),
       edges = AList.update (u, v)
                 (case map_of (edges g) (u, v) of None \<Rightarrow> attr
                  | Some old \<Rightarrow> update_edge_data old attr)
                 (edges g) \<rparr>"

text \<open>
  \<open>G.remove_node(n)\<close>: the node goes, with every edge into or out of it. (networkx raises
  for a node that is not in the graph; the service only removes nodes it has just read
  from the graph.)
\<close>

definition remove_node :: "digraph \<Rightarrow> string \<Rightarrow> digraph" where
  "remove_node g n =
     \<lparr> nodes = AList.delete n (nodes g),
       edges = filter (\<lambda>((u, v), d). u \<noteq> n \<and> v \<noteq> n) (edges g) \<rparr>"

definition out_degree :: "digraph \<Rightarrow> string \<Rightarrow> nat" where
  "out_degree g n = length (filter (\<lambda>((u, v), d). u = n) (edges g))"

definition predecessors :: "digraph \<Rightarrow> string \<Rightarrow> string list" where
  "predecessors g n = map (\<lambda>((u, v), d). u) (filter (\<lambda>((u, v), d). v = n) (edges g))"

definition successors :: "digraph \<Rightarrow> string \<Rightarrow> string list" where
  "successors g n = map (\<lambda>((u, v), d). v) (filter (\<lambda>((u, v), d). u = n) (edges g))"

section \<open>services/graph.py: GraphMappingService\<close>

text \<open>
  The processing state of one service instance. \<open>address_visit_count\<close> is a
  \<open>defaultdict(int)\<close>: a total function, 0 where nothing was counted.
  \<open>status_updates\<close> collects the progress values written to the graph repository by
  \<open>update_graph_status(incident_id, "running", progress=..., current_step=...)\<close>.
\<close>

record service =
  graph :: digraph
  api_calls_used :: int
  nodes_processed :: int
  edges_created :: int
  address_visit_count :: "string \<Rightarrow> int"
  processed_nodes :: "string set"
  pending_nodes :: "(string \<times> int) list"
  status_updates :: "int list"

definition new_service :: service where
  "new_service =
     \<lparr> graph = empty_graph, api_calls_used = 0, nodes_processed = 0, edges_created = 0,
       address_visit_count = (\<lambda>a. 0), processed_nodes = {}, pending_nodes = [],
       status_updates = [] \<rparr>"

text \<open>\<open>int(x)\<close> of a float truncates towards zero.\<close>

definition py_int :: "rat \<Rightarrow> int" where
  "py_int x = (if 0 \<le> x then floor x else ceiling x)"

text \<open>\<open>xs[:k]\<close>: a negative \<open>k\<close> counts from the end.\<close>

definition py_prefix :: "int \<Rightarrow> 'a list \<Rightarrow> 'a list" where
  "py_prefix k xs = (if 0 \<le> k then take (nat k) xs else take (length xs - nat (- k)) xs)"

definition get_total_stolen_amount :: "service \<Rightarrow> rat" where
  "get_total_stolen_amount svc = 100"

text \<open>\<open>_add_graph_node(address, depth, **kwargs)\<close>; the keyword arguments the service
  passes are \<open>entity_type\<close> and \<open>confidence_score\<close>, together or not at all.\<close>

definition add_graph_node :: "digraph \<Rightarrow> string \<Rightarrow> int \<Rightarrow> (string \<times> rat) option \<Rightarrow> digraph" where
  "add_graph_node g address depth kwargs =
     add_node g address
       (\<lambda>d. case kwargs of
               None \<Rightarrow> d\<lparr> n_depth_from_hack := Some depth \<rparr>
             | Some (entity_type, confidence_score) \<Rightarrow>
                 d\<lparr> n_depth_from_hack := Some depth, n_entity_type := Some entity_type,
                    n_confidence_score := Some confidence_score \<rparr>)"

text \<open>\<open>_add_graph_edge(from_addr, to_addr, tx_hash, value, **kwargs)\<close>: \<open>attr\<close> holds the
  transaction hash, the value and the keyword arguments.\<close>

definition add_graph_edge :: "digraph \<Rightarrow> string \<Rightarrow> string \<Rightarrow> edge_data \<Rightarrow> digraph" where
  "add_graph_edge g from_addr to_addr attr = add_edge g from_addr to_addr attr"

subsection \<open>Step 1: \<open>_initialize_graph\<close>\<close>

text \<open>
  What the incident repository returns: the incident row (or nothing) and the rows of
  its transaction details. \<open>hack_tx_value\<close> is the number the row's \<open>value\<close> denotes.
\<close>

record incident =
  wallet_address :: string

record hack_tx =
  hack_to_address :: string
  hack_transaction_hash :: "string option"
  hack_tx_value :: "rat option"

definition initialize_graph ::
  "string \<Rightarrow> incident option \<Rightarrow> hack_tx list \<Rightarrow> service \<Rightarrow> exc + service" where
  "initialize_graph incident_id inc tx_details svc =
     (case inc of
        None \<Rightarrow> Inl (GraphProcessingError (''Incident '' @ incident_id @ '' not found''))
      | Some i \<Rightarrow>
        (case tx_details of
           [] \<Rightarrow> Inl (GraphProcessingError
                      (''No transaction details found for incident '' @ incident_id))
         | hack # rest \<Rightarrow>
           (let victim_address = lower (wallet_address i);
                hacker_address = lower (hack_to_address hack);
                g0 = empty_graph;
                g1 = add_graph_node g0 victim_address 0 (Some (''victim_wallet'', 100));
                g2 = add_graph_node g1 hacker_address 1 (Some (''hacker_wallet'', 95));
                g3 = add_graph_edge g2 victim_address hacker_address
                       \<lparr> e_transaction_hash =
                           (case hack_transaction_hash hack of None \<Rightarrow> '''' | Some h \<Rightarrow> h),
                         e_value_eth = (case hack_tx_value hack of None \<Rightarrow> 0 | Some v \<Rightarrow> v),
                         e_priority_score = 100,
                         e_filter_reason = ''initial_hack_transaction'',
                         e_block_number = None, e_timestamp = None, e_gas_used = None,
                         e_gas_price = None, e_flow_percentage = None,
                         e_importance = None \<rparr>
            in Inr (svc\<lparr> graph := g3,
                          pending_nodes := pending_nodes svc @ [(hacker_address, 1)] \<rparr>))))"

subsection \<open>The filtering pipeline\<close>

definition get_min_percentage_threshold :: "settings \<Rightarrow> rat \<Rightarrow> rat" where
  "get_min_percentage_threshold cfg hack_value_eth =
     (if hack_value_eth > 100 then min_percentage_large_hack cfg
      else if hack_value_eth > 10 then min_percentage_medium_hack cfg
      else min_percentage_small_hack cfg)"

definition calculate_priority_score :: "TransactionData \<Rightarrow> rat \<Rightarrow> int" where
  "calculate_priority_score tx value_eth =
     (let score = 0;
          score = score + (if value_eth > 10 then 50
                           else if value_eth > 1 then 30
                           else if value_eth > 1 / 10 then 20
                           else 10);
          score = score + (if value_eth = of_int (py_int value_eth)
                              \<or> value_eth * 1000 = of_int (py_int (value_eth * 1000))
                           then 10 else 0);
          score = score + (case gas_price tx of
                             None \<Rightarrow> 0
                           | Some gp \<Rightarrow> if gp \<noteq> 0 \<and> gp > 20000000000 then 15 else 0)
      in min score 100)"

text \<open>
  \<open>float(tx.value) / 1e18\<close>, as the exact quotient. On IEEE doubles a value that is not
  exactly representable is rounded, so a comparison within one rounding step of a
  threshold, and the round-amount test of \<open>_calculate_priority_score\<close> on such a value,
  can come out the other way. The evaluations below use values that are exact doubles
  (0.75 and 3 ether) or far from every threshold, and the general statements do not
  depend on how these tests come out.
\<close>

definition value_eth_of :: "TransactionData \<Rightarrow> rat" where
  "value_eth_of tx = of_int (value_wei tx) / 10 ^ 18"

text \<open>The body of the primary loop: \<open>True\<close> when the transaction is appended.\<close>

definition primary_keeps :: "settings \<Rightarrow> rat \<Rightarrow> string \<Rightarrow> TransactionData \<Rightarrow> bool" where
  "primary_keeps cfg hack_value current_address tx =
     (if lower (from_address tx) \<noteq> lower current_address then False
      else let value_eth = value_eth_of tx in
        if value_eth < min_transaction_value_eth cfg then False
        else if hack_value > 0
                \<and> (value_eth / hack_value) * 100 < get_min_percentage_threshold cfg hack_value
          then False
        else True)"

text \<open>
  The score the secondary loop has computed for a transaction when it reaches the
  assignment \<open>tx.priority_score = priority_score\<close>.
\<close>

definition secondary_priority :: "settings \<Rightarrow> service \<Rightarrow> TransactionData \<Rightarrow> int" where
  "secondary_priority cfg svc tx =
     (let value_eth = value_eth_of tx;
          priority_score = calculate_priority_score tx value_eth;
          times_seen = address_visit_count svc (lower (to_address tx))
      in if times_seen \<ge> reuse_threshold cfg then priority_score + 20 else priority_score)"

text \<open>
  The assignment itself and the later read. \<open>TransactionData\<close> declares no field
  \<open>priority_score\<close>, so pydantic's \<open>__setattr__\<close> raises \<open>ValueError\<close> and the object is
  left without the attribute; \<open>getattr(tx, 'priority_score', 0)\<close> then answers 0.
\<close>

definition set_priority_score :: "TransactionData \<Rightarrow> int \<Rightarrow> exc + TransactionData" where
  "set_priority_score tx score = Inl ValueError"

definition getattr_priority_score :: "TransactionData \<Rightarrow> int" where
  "getattr_priority_score t = 0"

text \<open>The secondary loop over \<open>primary_filtered\<close>, appending to \<open>secondary_filtered\<close>.\<close>

fun secondary_loop ::
  "settings \<Rightarrow> service \<Rightarrow> TransactionData list \<Rightarrow> TransactionData list
     \<Rightarrow> exc + TransactionData list" where
  "secondary_loop cfg svc [] secondary_filtered = Inr secondary_filtered"
| "secondary_loop cfg svc (tx # rest) secondary_filtered =
     (case set_priority_score tx (secondary_priority cfg svc tx) of
        Inl e \<Rightarrow> Inl e
      | Inr tx' \<Rightarrow> secondary_loop cfg svc rest (secondary_filtered @ [tx']))"

text \<open>
  \<open>_apply_filtering_pipeline(transactions, current_address, depth)\<close>: the list it
  returns, or the exception that leaves it. A transaction whose normalization raises is
  skipped. \<open>list.sort(key=..., reverse=True)\<close> is stable: it is the stable sort on the
  negated key.
\<close>

definition apply_filtering_pipeline ::
  "settings \<Rightarrow> 'raw etherscan_service \<Rightarrow> service \<Rightarrow> 'raw list \<Rightarrow> string \<Rightarrow> int
     \<Rightarrow> exc + TransactionData list" where
  "apply_filtering_pipeline cfg es svc transactions current_address depth =
     (if transactions = [] then Inr []
      else
        let hack_value = get_total_stolen_amount svc;
            normalized_transactions = List.map_filter (normalize es) transactions;
            primary_filtered =
              filter (primary_keeps cfg hack_value current_address) normalized_transactions
        in case secondary_loop cfg svc primary_filtered [] of
             Inl e \<Rightarrow> Inl e
           | Inr secondary_filtered \<Rightarrow>
               Inr (sort_key (\<lambda>t. - getattr_priority_score t) secondary_filtered))"

subsection \<open>Step 2: traversal\<close>

definition process_transaction ::
  "settings \<Rightarrow> service \<Rightarrow> TransactionData \<Rightarrow> string \<Rightarrow> int \<Rightarrow> service" where
  "process_transaction cfg svc tx from_addr depth =
     (let to_addr = lower (to_address tx) in
      if has_node (graph svc) to_addr
         \<and> (case n_processed (node_attrs (graph svc) to_addr) of None \<Rightarrow> False | Some b \<Rightarrow> b)
      then svc
      else
        let svc1 =
              (if \<not> has_node (graph svc) to_addr then
                 (let s = svc\<lparr> graph := add_graph_node (graph svc) to_addr (depth + 1) None \<rparr>
                  in if depth + 1 < max_depth cfg
                     then s\<lparr> pending_nodes := pending_nodes s @ [(to_addr, depth + 1)] \<rparr>
                     else s)
               else svc);
            value_eth = value_eth_of tx;
            svc2 = svc1\<lparr> graph := add_graph_edge (graph svc1) from_addr to_addr
                     \<lparr> e_transaction_hash = transaction_hash tx,
                       e_value_eth = value_eth,
                       e_priority_score = getattr_priority_score tx,
                       e_filter_reason = ''filtered_transaction'',
                       e_block_number = Some (block_number tx),
                       e_timestamp = Some (timestamp tx),
                       e_gas_used = Some (gas_used tx),
                       e_gas_price = Some (gas_price tx),
                       e_flow_percentage = None, e_importance = None \<rparr> \<rparr>
        in svc2\<lparr> edges_created := edges_created svc2 + 1 \<rparr>)"

text \<open>\<open>self.graph.nodes[address].update({...})\<close>, guarded by \<open>address in self.graph.nodes\<close>.\<close>

definition update_node :: "digraph \<Rightarrow> string \<Rightarrow> (node_data \<Rightarrow> node_data) \<Rightarrow> digraph" where
  "update_node g address upd =
     (case map_of (nodes g) address of
        None \<Rightarrow> g
      | Some d \<Rightarrow> g\<lparr> nodes := AList.update address (upd d) (nodes g) \<rparr>)"

definition check_termination_conditions ::
  "directory \<Rightarrow> service \<Rightarrow> string \<Rightarrow> int \<Rightarrow> int \<Rightarrow> service" where
  "check_termination_conditions dir svc address total_tx_count filtered_tx_count =
     (case classify_address dir address total_tx_count 0 (address_visit_count svc address) of
        (entity_type, confidence, details) \<Rightarrow>
          let svc1 = svc\<lparr> graph := update_node (graph svc) address
                       (\<lambda>d. d\<lparr> n_entity_type := Some entity_type,
                               n_confidence_score := Some confidence,
                               n_transaction_count := Some total_tx_count,
                               n_classification_details := Some details \<rparr>) \<rparr>
          in case should_terminate_exploration address entity_type confidence
                    total_tx_count filtered_tx_count 0 of
               (should_terminate, reason) \<Rightarrow>
                 if should_terminate then
                   svc1\<lparr> graph := update_node (graph svc1) address
                           (\<lambda>d. d\<lparr> n_termination_reason := Some reason,
                                   n_manual_exploration_ready := Some (confidence < 80) \<rparr>),
                         pending_nodes :=
                           filter (\<lambda>(addr, d). addr \<noteq> address) (pending_nodes svc1) \<rparr>
                 else svc1)"

text \<open>The \<open>start_block\<close> of the fetch: the node's \<open>first_seen\<close> when it has one, else 0.\<close>

definition fetch_start_block :: "digraph \<Rightarrow> string \<Rightarrow> int" where
  "fetch_start_block g address =
     (if has_node g address
      then (case n_first_seen (node_attrs g address) of None \<Rightarrow> 0 | Some b \<Rightarrow> b)
      else 0)"

text \<open>
  \<open>_process_node(address, depth)\<close>. The result is the exception that leaves the method,
  if any, with the state at that moment. The \<open>try\<close> block covers the fetch, the
  pipeline and the termination check; its handler
  \<open>except (EtherscanError, EtherscanRateLimitError)\<close> catches and logs an
  \<open>EtherscanError\<close>, and every other exception propagates to the caller.
\<close>

definition process_node ::
  "settings \<Rightarrow> directory \<Rightarrow> 'raw etherscan_service \<Rightarrow> service \<Rightarrow> string \<Rightarrow> int
     \<Rightarrow> exc option \<times> service" where
  "process_node cfg dir es svc address depth =
     (let svc1 = svc\<lparr> address_visit_count :=
                   (address_visit_count svc)(address := address_visit_count svc address + 1) \<rparr>;
          start_block = fetch_start_block (graph svc1) address
      in case get_account_transactions es address start_block of
           Raises e \<Rightarrow>
             (if is_etherscan_error e then (None, svc1) else (Some e, svc1))
         | Returns transactions \<Rightarrow>
             (let svc2 = svc1\<lparr> api_calls_used := api_calls_used svc1 + 1 \<rparr>
              in case apply_filtering_pipeline cfg es svc2 transactions address depth of
                   Inl e \<Rightarrow>
                     (if is_etherscan_error e then (None, svc2) else (Some e, svc2))
                 | Inr filtered_transactions \<Rightarrow>
                     (let svc3 = fold (\<lambda>tx_data s.
                                         process_transaction cfg s tx_data address depth)
                                   (py_prefix (max_transactions_per_node cfg)
                                      filtered_transactions)
                                   svc2
                      in (None, check_termination_conditions dir svc3 address
                                  (int (length transactions))
                                  (int (length filtered_transactions))))))"

text \<open>
  The \<open>while\<close> loop of \<open>_recursive_traversal\<close>. \<open>clock svc\<close> is
  \<open>time.time() - self.processing_start_time\<close> as read at the head of the iteration that
  starts in state \<open>svc\<close>.
\<close>

definition loop_condition :: "settings \<Rightarrow> service \<Rightarrow> bool" where
  "loop_condition cfg svc =
     (pending_nodes svc \<noteq> []
      \<and> api_calls_used svc < max_api_calls_per_incident cfg
      \<and> int (length (nodes (graph svc))) < max_nodes_per_graph cfg)"

text \<open>One iteration of the loop body, entered with the loop condition true.\<close>

definition loop_body ::
  "settings \<Rightarrow> directory \<Rightarrow> 'raw etherscan_service \<Rightarrow> (service \<Rightarrow> rat) \<Rightarrow> service
     \<Rightarrow> exc option \<times> service" where
  "loop_body cfg dir es clock svc =
     (if clock svc > of_int (processing_timeout_seconds cfg) then (Some TimeoutError, svc)
      else
        case pending_nodes svc of
          [] \<Rightarrow> (Some OtherException, svc)
        | (current_address, current_depth) # rest \<Rightarrow>
            (let svc1 = svc\<lparr> pending_nodes := rest \<rparr> in
             if current_address \<in> processed_nodes svc1 \<or> current_depth \<ge> max_depth cfg
             then (None, svc1)
             else
               case process_node cfg dir es svc1 current_address current_depth of
                 (Some e, svc2) \<Rightarrow> (Some e, svc2)
               | (None, svc2) \<Rightarrow>
                   (let svc3 = svc2\<lparr> processed_nodes :=
                                        insert current_address (processed_nodes svc2),
                                      nodes_processed := nodes_processed svc2 + 1 \<rparr>;
                        progress = min 95 ((of_int (nodes_processed svc3) / 20) * 100)
                    in (None, svc3\<lparr> status_updates :=
                                      status_updates svc3 @ [py_int progress] \<rparr>))))"

text \<open>
  The loop itself. It terminates: an iteration that fetches successfully uses up one of
  the \<open>max_api_calls\<close>, and every other iteration shortens the queue.
\<close>

lemma process_transaction_api [simp]:
  "api_calls_used (process_transaction cfg s tx a d) = api_calls_used s"
  by (simp add: process_transaction_def Let_def)

lemma fold_process_transaction_api [simp]:
  "api_calls_used (fold (\<lambda>tx_data s. process_transaction cfg s tx_data a d) txs s)
   = api_calls_used s"
  by (induction txs arbitrary: s) simp_all

lemma check_termination_conditions_api [simp]:
  "api_calls_used (check_termination_conditions dir s a n m) = api_calls_used s"
  by (simp add: check_termination_conditions_def Let_def split: prod.splits)

lemma process_node_api:
  "process_node cfg dir es s a d = (r, s') \<Longrightarrow>
     api_calls_used s' = api_calls_used s + 1
     \<or> (api_calls_used s' = api_calls_used s \<and> pending_nodes s' = pending_nodes s)"
  by (auto simp: process_node_def Let_def split: fetch.splits sum.splits if_splits)

lemma loop_body_measure:
  assumes "loop_condition cfg svc" "loop_body cfg dir es clock svc = (None, svc')"
  shows "api_calls_used svc' = api_calls_used svc + 1
       \<or> (api_calls_used svc' = api_calls_used svc
          \<and> length (pending_nodes svc') < length (pending_nodes svc))"
  using assms
  by (auto simp: loop_body_def loop_condition_def Let_def
           split: if_splits list.splits prod.splits option.splits dest!: process_node_api)

function recursive_traversal ::
  "settings \<Rightarrow> directory \<Rightarrow> 'raw etherscan_service \<Rightarrow> (service \<Rightarrow> rat) \<Rightarrow> service
     \<Rightarrow> exc option \<times> service" where
  "recursive_traversal cfg dir es clock svc =
     (if loop_condition cfg svc then
        (case loop_body cfg dir es clock svc of
           (Some e, svc') \<Rightarrow> (Some e, svc')
         | (None, svc') \<Rightarrow> recursive_traversal cfg dir es clock svc')
      else (None, svc))"
  by pat_completeness auto
termination
proof (relation
    "measures [\<lambda>(cfg, dir, es, clock, svc).
                 nat (max_api_calls_per_incident cfg - api_calls_used svc),
               \<lambda>(cfg, dir, es, clock, svc). length (pending_nodes svc)]")
  show "wf (measures
              [\<lambda>(cfg, dir, es, clock, svc).
                 nat (max_api_calls_per_incident cfg - api_calls_used svc),
               \<lambda>(cfg :: settings, dir :: directory, es :: 'raw etherscan_service,
                  clock :: service \<Rightarrow> rat, svc). length (pending_nodes svc)])"
    by simp
next
  fix cfg dir and es :: "'raw etherscan_service" and clock svc x y
  assume c: "loop_condition cfg svc"
    and b: "(x, y) = loop_body cfg dir es clock svc" and n: "x = None"
  from b n have "loop_body cfg dir es clock svc = (None, y)" by simp
  from loop_body_measure [OF c this] c
  show "((cfg, dir, es, clock, y), cfg, dir, es, clock, svc)
       \<in> measures [\<lambda>(cfg, dir, es, clock, svc).
                      nat (max_api_calls_per_incident cfg - api_calls_used svc),
                    \<lambda>(cfg, dir, es, clock, svc). length (pending_nodes svc)]"
    by (auto simp: loop_condition_def)
qed

declare recursive_traversal.simps [simp del]

text \<open>
  The states the loop passes through, from a starting state: the state at the head of
  each iteration, and the state in which the loop is left (normally or by an
  exception).
\<close>

inductive traversal_visits ::
  "settings \<Rightarrow> directory \<Rightarrow> 'raw etherscan_service \<Rightarrow> (service \<Rightarrow> rat) \<Rightarrow> service \<Rightarrow> service
     \<Rightarrow> bool"
  for cfg dir es clock svc0 where
    visits_start: "traversal_visits cfg dir es clock svc0 svc0"
  | visits_step:
      "traversal_visits cfg dir es clock svc0 svc \<Longrightarrow> loop_condition cfg svc
         \<Longrightarrow> loop_body cfg dir es clock svc = (r, svc')
         \<Longrightarrow> traversal_visits cfg dir es clock svc0 svc'"

subsection \<open>Step 3: \<open>_optimize_graph\<close>\<close>

text \<open>The condition under which \<open>_remove_dead_ends\<close> lists a node for removal.\<close>

definition dead_end :: "digraph \<Rightarrow> string \<Rightarrow> node_data \<Rightarrow> bool" where
  "dead_end g node d =
     (out_degree g node = 0
      \<and> (case n_termination_reason d of None \<Rightarrow> True | Some r \<Rightarrow> r = '''')
      \<and> (case n_entity_type d of None \<Rightarrow> True
          | Some t \<Rightarrow> t \<noteq> ''CEX'' \<and> t \<noteq> ''DEX'' \<and> t \<noteq> ''Mixer''))"

definition nodes_to_remove :: "digraph \<Rightarrow> string list" where
  "nodes_to_remove g = map fst (filter (\<lambda>(node, d). dead_end g node d) (nodes g))"

text \<open>The effect of \<open>_remove_dead_ends\<close> on \<open>self.graph\<close>, and the method.\<close>

definition dead_ends_removed :: "digraph \<Rightarrow> digraph" where
  "dead_ends_removed g = fold (\<lambda>node h. remove_node h node) (nodes_to_remove g) g"

definition remove_dead_ends :: "service \<Rightarrow> service" where
  "remove_dead_ends svc = svc\<lparr> graph := dead_ends_removed (graph svc) \<rparr>"

text \<open>
  \<open>entity_groups\<close> of \<open>_consolidate_entities\<close>: a \<open>defaultdict(list)\<close> filled in node order.
  A node is grouped when its \<open>classification_details\<close> is a non-empty string other than
  \<open>"Unknown"\<close>.
\<close>

definition entity_key :: "node_data \<Rightarrow> string option" where
  "entity_key d =
     (case n_classification_details d of
        Some (Some k) \<Rightarrow> if k \<noteq> '''' \<and> k \<noteq> ''Unknown'' then Some k else None
      | _ \<Rightarrow> None)"

definition group_append :: "string \<Rightarrow> string \<Rightarrow> (string \<times> string list) list \<Rightarrow> (string \<times> string list) list" where
  "group_append k node groups =
     AList.update k ((case map_of groups k of None \<Rightarrow> [] | Some ns \<Rightarrow> ns) @ [node]) groups"

text \<open>The body of the grouping loop, for one node, and the loop.\<close>

definition group_step ::
  "string \<times> node_data \<Rightarrow> (string \<times> string list) list \<Rightarrow> (string \<times> string list) list" where
  "group_step =
     (\<lambda>(node, d) groups.
        case entity_key d of None \<Rightarrow> groups | Some k \<Rightarrow> group_append k node groups)"

definition entity_groups :: "digraph \<Rightarrow> (string \<times> string list) list" where
  "entity_groups g = fold group_step (nodes g) []"

text \<open>The two redirection loops of \<open>_consolidate_address_group\<close> for one address.\<close>

definition redirect_incoming :: "string \<Rightarrow> string \<Rightarrow> digraph \<Rightarrow> digraph" where
  "redirect_incoming master_address addr g =
     fold (\<lambda>pred h.
             if pred \<noteq> master_address
             then (case map_of (edges h) (pred, addr) of
                     None \<Rightarrow> h
                   | Some edge_attrs \<Rightarrow> add_edge h pred master_address edge_attrs)
             else h)
          (predecessors g addr) g"

definition redirect_outgoing :: "string \<Rightarrow> string \<Rightarrow> digraph \<Rightarrow> digraph" where
  "redirect_outgoing master_address addr g =
     fold (\<lambda>succ h.
             if succ \<noteq> master_address
             then (case map_of (edges h) (addr, succ) of
                     None \<Rightarrow> h
                   | Some edge_attrs \<Rightarrow> add_edge h master_address succ edge_attrs)
             else h)
          (successors g addr) g"

definition consolidate_address_group :: "digraph \<Rightarrow> string list \<Rightarrow> string \<Rightarrow> digraph" where
  "consolidate_address_group g addresses entity_name =
     (if length addresses < 2 then g
      else
        let master_address = hd addresses;
            other_addresses = tl addresses;
            g1 = update_node g master_address
                   (\<lambda>d. d\<lparr> n_consolidated_addresses := Some other_addresses,
                           n_entity_type :=
                             Some (case n_entity_type d of None \<Rightarrow> ''Unknown'' | Some t \<Rightarrow> t) \<rparr>)
        in fold (\<lambda>addr h.
                   remove_node
                     (redirect_outgoing master_address addr
                        (redirect_incoming master_address addr h))
                     addr)
                other_addresses g1)"

text \<open>The effect of \<open>_consolidate_entities\<close> on \<open>self.graph\<close>, and the method.\<close>

definition merge_group :: "string \<times> string list \<Rightarrow> digraph \<Rightarrow> digraph" where
  "merge_group =
     (\<lambda>(entity_name, addresses) h.
        if length addresses > 1
        then consolidate_address_group h addresses entity_name else h)"

definition entities_consolidated :: "digraph \<Rightarrow> digraph" where
  "entities_consolidated g = fold merge_group (entity_groups g) g"

definition consolidate_entities :: "service \<Rightarrow> service" where
  "consolidate_entities svc = svc\<lparr> graph := entities_consolidated (graph svc) \<rparr>"

definition annotate_flow :: "rat \<Rightarrow> edge_data \<Rightarrow> edge_data" where
  "annotate_flow total_stolen d =
     (let value_eth = e_value_eth d;
          flow_percentage = (value_eth / total_stolen) * 100
      in d\<lparr> e_flow_percentage := Some flow_percentage,
            e_importance :=
              Some (if flow_percentage > 10 then ''critical''
                    else if flow_percentage > 2 then ''significant''
                    else ''minor'') \<rparr>)"

text \<open>The loop of \<open>_analyze_flows\<close> over the edges of \<open>self.graph\<close>, and the method.\<close>

definition flows_annotated :: "rat \<Rightarrow> digraph \<Rightarrow> digraph" where
  "flows_annotated total_stolen g =
     g\<lparr> edges := map (\<lambda>(k, d). (k, annotate_flow total_stolen d)) (edges g) \<rparr>"

definition analyze_flows :: "service \<Rightarrow> service" where
  "analyze_flows svc =
     (let total_stolen = get_total_stolen_amount svc in
      if total_stolen \<le> 0 then svc
      else svc\<lparr> graph := flows_annotated total_stolen (graph svc) \<rparr>)"

definition optimize_graph :: "service \<Rightarrow> service" where
  "optimize_graph svc = analyze_flows (consolidate_entities (remove_dead_ends svc))"

section \<open>jobs.py and db.py: starting a job\<close>

text \<open>
  A row of \<open>incident_graphs\<close>, with the columns \<open>create_incident_graph\<close> writes. The
  table is a map from incident id to its row; \<open>get_graph_status\<close> is the lookup.
\<close>

record graph_row =
  row_status :: string
  row_progress_percentage :: "int option"
  row_current_step :: "string option"
  row_error_message :: "string option"
  row_error_code :: "string option"

definition create_incident_graph :: "(string \<rightharpoonup> graph_row) \<Rightarrow> string \<Rightarrow> (string \<rightharpoonup> graph_row)" where
  "create_incident_graph tbl incident_id =
     tbl(incident_id \<mapsto>
       (case tbl incident_id of
          None \<Rightarrow> \<lparr> row_status = ''pending'', row_progress_percentage = None,
                   row_current_step = None, row_error_message = None,
                   row_error_code = None \<rparr>
        | Some r \<Rightarrow> r\<lparr> row_status := ''pending'', row_progress_percentage := Some 0,
                       row_current_step := None, row_error_message := None,
                       row_error_code := None \<rparr>))"

text \<open>
  The job manager with the two tables it reads. \<open>spawned\<close> lists the job ids for which
  \<open>asyncio.create_task(self._process_job(...))\<close> was called, in order; \<open>job_tasks\<close> maps
  a job id to the position of its task in that list. Times are seconds.
\<close>

record job_info =
  job_id :: string
  job_incident_id :: string
  job_status :: string
  created_at :: rat
  estimated_completion :: rat
  job_options :: "(string \<times> int) list"

record job_manager =
  active_jobs :: "string \<rightharpoonup> job_info"
  job_tasks :: "string \<rightharpoonup> nat"
  spawned :: "string list"
  last_job_start :: "rat option"
  min_job_interval :: rat
  incident_graphs :: "string \<rightharpoonup> graph_row"
  incidents :: "string \<rightharpoonup> incident"

datatype job_response =
    Conflict string string string
  | JobError string string
  | Accepted string string string rat rat

text \<open>
  \<open>start_job(incident_id, options)\<close>, called at time \<open>now\<close>. The rate-limiting sleep
  moves the time forward to \<open>last_job_start + min_job_interval\<close>.
\<close>

definition start_job ::
  "job_manager \<Rightarrow> rat \<Rightarrow> string \<Rightarrow> (string \<times> int) list option \<Rightarrow> job_response \<times> job_manager" where
  "start_job jm now incident_id options =
     (let existing_status = incident_graphs jm incident_id in
      if (case existing_status of
            None \<Rightarrow> False
          | Some r \<Rightarrow> row_status r = ''pending'' \<or> row_status r = ''running'')
      then (Conflict ''ALREADY_PROCESSING''
              ''Graph processing already in progress for this incident'' incident_id, jm)
      else
        let now1 = (case last_job_start jm of
                      None \<Rightarrow> now
                    | Some t \<Rightarrow>
                        if t \<noteq> 0 \<and> now - t < min_job_interval jm
                        then now + (min_job_interval jm - (now - t)) else now)
        in case incidents jm incident_id of
             None \<Rightarrow> (JobError ''INCIDENT_NOT_FOUND''
                        (''Incident with ID '' @ incident_id @ '' not found''), jm)
           | Some inc \<Rightarrow>
               (let jid = incident_id;
                    created = now1;
                    estimated = created + 30;
                    jm1 = jm\<lparr> active_jobs := (active_jobs jm)(jid \<mapsto>
                                 \<lparr> job_id = jid, job_incident_id = incident_id,
                                   job_status = ''pending'', created_at = created,
                                   estimated_completion = estimated,
                                   job_options = (case options of None \<Rightarrow> [] | Some os \<Rightarrow> os) \<rparr>) \<rparr>;
                    jm2 = jm1\<lparr> incident_graphs :=
                                  create_incident_graph (incident_graphs jm1) incident_id \<rparr>;
                    jm3 = jm2\<lparr> job_tasks := (job_tasks jm2)(jid \<mapsto> length (spawned jm2)),
                               spawned := spawned jm2 @ [jid] \<rparr>
                in (Accepted jid incident_id ''Graph processing started'' created estimated,
                    jm3\<lparr> last_job_start := Some now1 \<rparr>)))"

section \<open>A small incident\<close>

text \<open>
  The incident used for the concrete evaluations: the victim's wallet, the hack
  transaction of 5 ETH to the hacker, and three later transactions of the hacker of
  0.10, 0.06 and 0.04 ETH (values in wei, hexadecimal, as \<open>normalize_transaction\<close> reads
  them).
\<close>

definition victim_addr :: string where
  "victim_addr = ''0x00000000000000000000000000000000000000a1''"

definition hacker_addr :: string where
  "hacker_addr = ''0x00000000000000000000000000000000000000b2''"

definition seed_service :: service where
  "seed_service =
     (case initialize_graph ''incident-1''
             (Some \<lparr> wallet_address = ''0x00000000000000000000000000000000000000A1'' \<rparr>)
             [\<lparr> hack_to_address = ''0x00000000000000000000000000000000000000B2'',
                hack_transaction_hash = Some ''0xf0'', hack_tx_value = Some 5 \<rparr>]
             new_service of
        Inl e \<Rightarrow> new_service
      | Inr svc \<Rightarrow> svc)"

definition scenario_txs :: "raw_tx list" where
  "scenario_txs =
     [[(''hash'', ''0xf1''), (''from'', ''0x00000000000000000000000000000000000000B2''),
       (''to'', ''0x00000000000000000000000000000000000000C3''),
       (''value'', ''0x16345785d8a0000''), (''blockNumber'', ''0x10''),
       (''gas'', ''0x5208''), (''gasUsed'', ''0x5208''), (''gasPrice'', ''0x3b9aca00'')],
      [(''hash'', ''0xf2''), (''from'', ''0x00000000000000000000000000000000000000B2''),
       (''to'', ''0x00000000000000000000000000000000000000D4''),
       (''value'', ''0xd529ae9e860000''), (''blockNumber'', ''0x11''),
       (''gas'', ''0x5208''), (''gasUsed'', ''0x5208''), (''gasPrice'', ''0x3b9aca00'')],
      [(''hash'', ''0xf3''), (''from'', ''0x00000000000000000000000000000000000000B2''),
       (''to'', ''0x00000000000000000000000000000000000000E5''),
       (''value'', ''0x8e1bc9bf040000''), (''blockNumber'', ''0x12''),
       (''gas'', ''0x5208''), (''gasUsed'', ''0x5208''), (''gasPrice'', ''0x3b9aca00'')]]"

text \<open>The explorer that answers every request with these three transactions.\<close>

definition scenario_client :: "raw_tx etherscan_service" where
  "scenario_client = etherscan_client (\<lambda>address start_block attempt. Returns scenario_txs)"

text \<open>
  The explorer that answers every request with HTTP 429: each execution of the body of
  \<open>_make_request\<close> raises \<open>EtherscanRateLimitError\<close>.
\<close>

definition failing_client :: "raw_tx etherscan_service" where
  "failing_client =
     etherscan_client (\<lambda>address start_block attempt. Raises EtherscanRateLimitError)"

definition no_clock :: "service \<Rightarrow> rat" where
  "no_clock svc = 0"

text \<open>
  The traversal of the seeded service with the default settings: against the explorer
  that returns the three small transactions, and against the one that is rate limited.
\<close>

definition scenario_run :: "exc option \<times> service" where
  "scenario_run =
     recursive_traversal default_settings known_addresses scenario_client no_clock
       seed_service"

definition rate_limited_run :: "exc option \<times> service" where
  "rate_limited_run =
     recursive_traversal default_settings known_addresses failing_client no_clock
       seed_service"

text \<open>
  The traversal with \<open>max_depth\<close> set to 1: the hacker's entry, at depth 1, is taken from
  the queue and skipped, so no request is made and the graph stays as initialized.
\<close>

definition skipped_run :: "exc option \<times> service" where
  "skipped_run =
     recursive_traversal (default_settings\<lparr> max_depth := 1 \<rparr>) known_addresses
       scenario_client no_clock seed_service"

text \<open>The graph after initialization.\<close>

definition seed_graph :: digraph where
  "seed_graph =
     \<lparr> nodes =
         [(victim_addr, empty_node\<lparr> n_depth_from_hack := Some 0,
                                    n_entity_type := Some ''victim_wallet'',
                                    n_confidence_score := Some 100 \<rparr>),
          (hacker_addr, empty_node\<lparr> n_depth_from_hack := Some 1,
                                    n_entity_type := Some ''hacker_wallet'',
                                    n_confidence_score := Some 95 \<rparr>)],
       edges =
         [((victim_addr, hacker_addr),
           \<lparr> e_transaction_hash = ''0xf0'', e_value_eth = 5, e_priority_score = 100,
             e_filter_reason = ''initial_hack_transaction'', e_block_number = None,
             e_timestamp = None, e_gas_used = None, e_gas_price = None,
             e_flow_percentage = None, e_importance = None \<rparr>)] \<rparr>"

text \<open>Two larger transactions of the hacker: 0.75 ETH at 1 gwei and 3 ETH at 25 gwei.\<close>

definition large_txs :: "raw_tx list" where
  "large_txs =
     [[(''hash'', ''0xf4''), (''from'', ''0x00000000000000000000000000000000000000B2''),
       (''to'', ''0x00000000000000000000000000000000000000C3''),
       (''value'', ''0xa688906bd8b0000''), (''blockNumber'', ''0x13''),
       (''gas'', ''0x5208''), (''gasUsed'', ''0x5208''), (''gasPrice'', ''0x3b9aca00'')],
      [(''hash'', ''0xf5''), (''from'', ''0x00000000000000000000000000000000000000B2''),
       (''to'', ''0x00000000000000000000000000000000000000C3''),
       (''value'', ''0x29a2241af62c0000''), (''blockNumber'', ''0x14''),
       (''gas'', ''0x5208''), (''gasUsed'', ''0x5208''), (''gasPrice'', ''0x5d21dba00'')]]"

definition large_client :: "raw_tx etherscan_service" where
  "large_client = etherscan_client (\<lambda>address start_block attempt. Returns large_txs)"

definition large_run :: "exc option \<times> service" where
  "large_run =
     recursive_traversal default_settings known_addresses large_client no_clock
       seed_service"





text \<open>
  The graph the traversal against the three small transactions ends with: the hacker's
  node classified and terminated, no new node and no new edge.
\<close>

definition scenario_graph :: digraph where
  "scenario_graph =
     \<lparr> nodes =
         [(victim_addr, empty_node\<lparr> n_depth_from_hack := Some 0,
                                    n_entity_type := Some ''victim_wallet'',
                                    n_confidence_score := Some 100 \<rparr>),
          (hacker_addr, empty_node\<lparr> n_depth_from_hack := Some 1,
                                    n_entity_type := Some ''potential_endpoint'',
                                    n_confidence_score := Some 20,
                                    n_transaction_count := Some 3,
                                    n_classification_details := Some (Some ''Low activity wallet''),
                                    n_termination_reason := Some ''insufficient_value_flow'',
                                    n_manual_exploration_ready := Some True \<rparr>)],
       edges =
         [((victim_addr, hacker_addr),
           \<lparr> e_transaction_hash = ''0xf0'', e_value_eth = 5, e_priority_score = 100,
             e_filter_reason = ''initial_hack_transaction'', e_block_number = None,
             e_timestamp = None, e_gas_used = None, e_gas_price = None,
             e_flow_percentage = None, e_importance = None \<rparr>)] \<rparr>"

text \<open>The nodes of a graph whose entity key is \<open>k\<close>, in node order.\<close>

definition members_in :: "(string \<times> node_data) list \<Rightarrow> string \<Rightarrow> string list" where
  "members_in xs k = map fst (filter (\<lambda>(n, d). entity_key d = Some k) xs)"

definition entity_members :: "digraph \<Rightarrow> string \<Rightarrow> string list" where
  "entity_members g k = members_in (nodes g) k"

text \<open>The addresses a list of groups loses to consolidation: all but the first of each
  group of two or more.\<close>

definition removed_by :: "(string \<times> string list) list \<Rightarrow> string set" where
  "removed_by groups =
     (\<Union>(name, addresses) \<in> set groups.
        if length addresses > 1 then set (tl addresses) else {})"

section \<open>Properties of the classifier\<close>

text \<open>
  C9. Directory precedence: when the lowercased address is a key of the directory,
  \<open>classify_address\<close> returns the directory's entity type, confidence and name, whatever
  the transaction count, the daily count and the number of times seen in the graph are.
\<close>

theorem classify_address_directory_hit:
  assumes "dir (lower address) = Some (entity_type, confidence, name)"
  shows "classify_address dir address transaction_count daily_tx_count times_seen_in_graph
         = (entity_type, confidence, Some name)"
  using assms by (simp add: classify_address_def)

theorem classify_address_directory_hit_witness:
  "known_addresses (lower ''0x3F5CE5FBFE3E9AF3971DD833D26BA9B5C936F0BE'')
     = Some (''CEX'', 95, ''Binance'')
   \<and> classify_address known_addresses ''0x3F5CE5FBFE3E9AF3971DD833D26BA9B5C936F0BE''
        20000 900 7 = (''CEX'', 95, Some ''Binance'')"
proof -
  have h: "known_addresses (lower ''0x3F5CE5FBFE3E9AF3971DD833D26BA9B5C936F0BE'')
     = Some (''CEX'', 95, ''Binance'')"
    by code_simp
  from classify_address_directory_hit
         [of known_addresses "''0x3F5CE5FBFE3E9AF3971DD833D26BA9B5C936F0BE''"
             "''CEX''" 95 "''Binance''" 20000 900 7, OF h] h
  show ?thesis by simp
qed


section \<open>Facts about the small incident\<close>

lemma seed_service_graph: "graph seed_service = seed_graph"
  by code_simp

lemma seed_service_pending: "pending_nodes seed_service = [(hacker_addr, 1)]"
  by code_simp

lemma seed_service_processed: "hacker_addr \<notin> processed_nodes seed_service"
  by code_simp

lemma seed_service_api: "api_calls_used seed_service = 0"
  by code_simp

lemma seed_graph_has_hacker: "has_node seed_graph hacker_addr"
  by code_simp

lemma seed_graph_distinct: "distinct (map fst (nodes seed_graph))"
  by code_simp

lemma skipped_run_returns: "fst skipped_run = None"
  by code_simp

lemma skipped_run_graph: "graph (snd skipped_run) = seed_graph"
  by code_simp

lemma scenario_run_returns: "fst scenario_run = None"
  by code_simp

lemma scenario_run_graph: "graph (snd scenario_run) = scenario_graph"
  by code_simp

section \<open>Starting a job\<close>

text \<open>
  C10. When the graph repository holds a row for the incident whose status is
  \<open>pending\<close> or \<open>running\<close>, \<open>start_job\<close> answers with the conflict response carrying
  \<open>ALREADY_PROCESSING\<close> and the incident id as the existing job id, and the job manager
  is unchanged: no job record, no task and no repository write.
\<close>

theorem start_job_conflict:
  assumes "incident_graphs jm incident_id = Some r"
      and "row_status r = ''pending'' \<or> row_status r = ''running''"
  shows "start_job jm now incident_id options =
           (Conflict ''ALREADY_PROCESSING''
              ''Graph processing already in progress for this incident'' incident_id, jm)"
  using assms by (auto simp: start_job_def)

theorem start_job_conflict_witness:
  "start_job
     \<lparr> active_jobs = Map.empty, job_tasks = Map.empty, spawned = [],
       last_job_start = None, min_job_interval = 1,
       incident_graphs = [''incident-1'' \<mapsto>
          \<lparr> row_status = ''running'', row_progress_percentage = Some 5,
            row_current_step = Some ''initialization'', row_error_message = None,
            row_error_code = None \<rparr>],
       incidents = [''incident-1'' \<mapsto> \<lparr> wallet_address = victim_addr \<rparr>] \<rparr>
     10 ''incident-1'' None
   = (Conflict ''ALREADY_PROCESSING''
        ''Graph processing already in progress for this incident'' ''incident-1'',
      \<lparr> active_jobs = Map.empty, job_tasks = Map.empty, spawned = [],
        last_job_start = None, min_job_interval = 1,
        incident_graphs = [''incident-1'' \<mapsto>
           \<lparr> row_status = ''running'', row_progress_percentage = Some 5,
             row_current_step = Some ''initialization'', row_error_message = None,
             row_error_code = None \<rparr>],
        incidents = [''incident-1'' \<mapsto> \<lparr> wallet_address = victim_addr \<rparr>] \<rparr>)"
proof -
  let ?row = "\<lparr> row_status = ''running'', row_progress_percentage = Some 5,
                 row_current_step = Some ''initialization'', row_error_message = None,
                 row_error_code = None \<rparr>"
  let ?jm = "\<lparr> active_jobs = Map.empty, job_tasks = Map.empty, spawned = [],
                last_job_start = None, min_job_interval = 1,
                incident_graphs = [''incident-1'' \<mapsto> ?row],
                incidents = [''incident-1'' \<mapsto> \<lparr> wallet_address = victim_addr \<rparr>] \<rparr>"
  have h1: "incident_graphs ?jm ''incident-1'' = Some ?row" by simp
  have h2: "row_status ?row = ''pending'' \<or> row_status ?row = ''running''" by simp
  show ?thesis by (rule start_job_conflict [OF h1 h2])
qed

section \<open>Expanding a node\<close>

lemma should_terminate_default:
  "\<exists>reason. should_terminate_exploration address entity_type confidence n m 0 = (True, reason)
      \<and> reason \<in> {''high_confidence_classification'', ''high_transaction_volume'',
                   ''insufficient_value_flow''}"
  by (simp add: should_terminate_exploration_def)

lemma has_node_add_node [simp]: "has_node (add_node g n upd) m = (m = n \<or> has_node g m)"
  by (auto simp: has_node_def add_node_def update_conv')

lemma map_of_ensure_node:
  "map_of (ensure_node n ns) m
   = (if m = n \<and> map_of ns n = None then Some empty_node else map_of ns m)"
  by (auto simp: ensure_node_def map_add_def split: option.splits)

lemma has_node_add_edge [simp]:
  "has_node (add_edge g u v a) m = (m = u \<or> m = v \<or> has_node g m)"
  by (auto simp: has_node_def add_edge_def map_of_ensure_node)

lemma has_node_process_transaction:
  "has_node (graph s) a \<Longrightarrow> has_node (graph (process_transaction cfg s tx f d)) a"
  by (auto simp: process_transaction_def Let_def add_graph_node_def add_graph_edge_def)

lemma has_node_fold_process_transaction:
  "has_node (graph s) a \<Longrightarrow>
   has_node (graph (fold (\<lambda>tx_data s. process_transaction cfg s tx_data f d) txs s)) a"
  by (induction txs arbitrary: s) (simp_all add: has_node_process_transaction)

lemma check_termination_conditions_result:
  assumes "has_node (graph s) a"
  shows "\<exists>reason.
           n_termination_reason
             (node_attrs (graph (check_termination_conditions dir s a n m)) a) = Some reason
         \<and> reason \<in> {''high_confidence_classification'', ''high_transaction_volume'',
                      ''insufficient_value_flow''}
         \<and> a \<notin> fst ` set (pending_nodes (check_termination_conditions dir s a n m))"
proof -
  obtain et conf det
    where c: "classify_address dir a n 0 (address_visit_count s a) = (et, conf, det)"
    by (cases "classify_address dir a n 0 (address_visit_count s a)") auto
  obtain reason where r: "should_terminate_exploration a et conf n m 0 = (True, reason)"
     and rin: "reason \<in> {''high_confidence_classification'', ''high_transaction_volume'',
                          ''insufficient_value_flow''}"
    using should_terminate_default by blast
  from assms obtain d where d: "map_of (nodes (graph s)) a = Some d"
    by (auto simp: has_node_def)
  show ?thesis
    using c r rin d
    by (auto simp: check_termination_conditions_def Let_def update_node_def node_attrs_def
                   update_conv')
qed

text \<open>
  When the fetch returns and the pipeline returns too, \<open>_process_node\<close> ends in the
  termination check, which calls \<open>should_terminate_exploration\<close> with the cumulative value
  percentage at its default 0.0; that is below 5, so the answer is always "terminate":
  the node gets one of the first three reasons and every queue entry for the address is
  removed.
\<close>

lemma process_node_terminates_node:
  assumes "has_node (graph svc) address"
      and "get_account_transactions es address (fetch_start_block (graph svc) address)
           = Returns transactions"
      and "apply_filtering_pipeline cfg es
             (svc\<lparr> address_visit_count :=
                      (address_visit_count svc)(address := address_visit_count svc address + 1),
                    api_calls_used := api_calls_used svc + 1 \<rparr>)
             transactions address depth = Inr filtered"
  shows "\<exists>svc' reason.
             process_node cfg dir es svc address depth = (None, svc')
           \<and> n_termination_reason (node_attrs (graph svc') address) = Some reason
           \<and> reason \<in> {''high_confidence_classification'', ''high_transaction_volume'',
                        ''insufficient_value_flow''}
           \<and> address \<notin> fst ` set (pending_nodes svc')"
proof -
  let ?svc2 = "svc\<lparr> address_visit_count :=
                      (address_visit_count svc)(address := address_visit_count svc address + 1),
                    api_calls_used := api_calls_used svc + 1 \<rparr>"
  let ?svc3 = "fold (\<lambda>tx_data s. process_transaction cfg s tx_data address depth)
                 (py_prefix (max_transactions_per_node cfg) filtered) ?svc2"
  have pn: "process_node cfg dir es svc address depth
            = (None, check_termination_conditions dir ?svc3 address
                       (int (length transactions)) (int (length filtered)))"
    using assms(2,3) by (simp add: process_node_def Let_def)
  have "has_node (graph ?svc2) address" using assms(1) by simp
  then have "has_node (graph ?svc3) address" by (rule has_node_fold_process_transaction)
  from check_termination_conditions_result [OF this, of dir "int (length transactions)"
         "int (length filtered)"]
  obtain reason where
    r1: "n_termination_reason
           (node_attrs (graph (check_termination_conditions dir ?svc3 address
              (int (length transactions)) (int (length filtered)))) address) = Some reason"
    and r2: "reason \<in> {''high_confidence_classification'', ''high_transaction_volume'',
                         ''insufficient_value_flow''}"
    and r3: "address \<notin> fst ` set (pending_nodes (check_termination_conditions dir ?svc3
                address (int (length transactions)) (int (length filtered))))"
    by blast
  from pn r1 r2 r3 show ?thesis by blast
qed

text \<open>
  The pipeline returns only when no transaction passes the primary tier: the secondary
  loop raises at its first transaction, on the assignment of the score.
\<close>

lemma secondary_loop_raises:
  "secondary_loop cfg svc (tx # rest) acc = Inl ValueError"
  by (simp add: set_priority_score_def)

lemma apply_filtering_pipeline_returns_empty:
  assumes "apply_filtering_pipeline cfg es svc transactions current_address depth = Inr ts"
  shows "ts = []"
proof (cases "transactions = []")
  case True
  with assms show ?thesis by (simp add: apply_filtering_pipeline_def)
next
  case False
  let ?pf = "filter (primary_keeps cfg (get_total_stolen_amount svc) current_address)
               (List.map_filter (normalize es) transactions)"
  show ?thesis
  proof (cases ?pf)
    case Nil
    with assms False show ?thesis by (simp add: apply_filtering_pipeline_def Let_def)
  next
    case (Cons tx rest)
    with assms False show ?thesis
      by (simp add: apply_filtering_pipeline_def Let_def set_priority_score_def)
  qed
qed

text \<open>
  C3. The hacker's fetch succeeds with the two larger transactions (0.75 and 3 ether,
  both above every threshold of the primary tier). The secondary loop then raises
  \<open>ValueError\<close> on \<open>tx.priority_score = priority_score\<close>; nothing in \<open>_process_node\<close>
  catches it, so \<open>_check_termination_conditions\<close> is never reached: the exception leaves
  \<open>_process_node\<close> and the traversal, the call is counted, and the expanded node has no
  termination reason.
\<close>

theorem expansion_raises_before_termination_check:
  "get_account_transactions large_client hacker_addr
     (fetch_start_block (graph seed_service) hacker_addr) = Returns large_txs
   \<and> fst (process_node default_settings known_addresses large_client seed_service
            hacker_addr 1) = Some ValueError
   \<and> n_termination_reason
       (node_attrs (graph (snd (process_node default_settings known_addresses large_client
                                  seed_service hacker_addr 1))) hacker_addr) = None
   \<and> fst large_run = Some ValueError
   \<and> api_calls_used (snd large_run) = 1
   \<and> n_termination_reason (node_attrs (graph (snd large_run)) hacker_addr) = None"
  by code_simp

text \<open>
  What \<open>get_account_transactions\<close> raises is never an \<open>EtherscanError\<close>: the retry
  decorator lets one through only to repeat the request, and ends with its own
  \<open>RetryError\<close>. So the handler of \<open>_process_node\<close> never handles a failed fetch: the
  exception leaves \<open>_process_node\<close> with nothing but the visit count changed.
\<close>

lemma get_account_transactions_raises:
  assumes "get_account_transactions es address start_block = Raises e"
  shows "\<not> is_etherscan_error e"
  using assms
  by (auto simp: get_account_transactions_def make_request_retried_def is_etherscan_error_def
           split: fetch.splits if_splits)

lemma process_node_fetch_raises:
  assumes "get_account_transactions es address (fetch_start_block (graph svc) address)
           = Raises e"
  shows "process_node cfg dir es svc address depth
         = (Some e, svc\<lparr> address_visit_count :=
                           (address_visit_count svc)
                             (address := address_visit_count svc address + 1) \<rparr>)"
  using assms get_account_transactions_raises [OF assms]
  by (simp add: process_node_def Let_def)

text \<open>
  C2. Against the explorer that answers every request with HTTP 429, the three
  executions of the request raise \<open>EtherscanRateLimitError\<close> and
  \<open>get_account_transactions\<close> raises \<open>RetryError\<close>. The handler of \<open>_process_node\<close> (whose
  comment reads "Continue processing other nodes") does not catch it: the exception
  leaves \<open>_process_node\<close> and the traversal. \<open>api_calls_used\<close> stays 0, the graph is the
  initial one (no termination reason is written) and the node is not counted as
  processed.
\<close>

theorem rate_limited_fetch_aborts_traversal:
  "map (make_request failing_client hacker_addr
          (fetch_start_block (graph seed_service) hacker_addr)) [1, 2, 3]
     = [Raises EtherscanRateLimitError, Raises EtherscanRateLimitError,
        Raises EtherscanRateLimitError]
   \<and> get_account_transactions failing_client hacker_addr
        (fetch_start_block (graph seed_service) hacker_addr) = Raises RetryError
   \<and> fst (process_node default_settings known_addresses failing_client seed_service
            hacker_addr 1) = Some RetryError
   \<and> fst rate_limited_run = Some RetryError
   \<and> api_calls_used (snd rate_limited_run) = 0
   \<and> nodes_processed (snd rate_limited_run) = 0
   \<and> graph (snd rate_limited_run) = seed_graph
   \<and> n_termination_reason (node_attrs seed_graph hacker_addr) = None"
  by code_simp

section \<open>The call budget\<close>

lemma loop_body_api_step:
  assumes "loop_body cfg dir es clock svc = (r, svc')"
  shows "api_calls_used svc' = api_calls_used svc
       \<or> api_calls_used svc' = api_calls_used svc + 1"
  using assms
  by (auto simp: loop_body_def Let_def
           split: if_splits list.splits prod.splits option.splits dest!: process_node_api)

lemma visits_budget:
  assumes "traversal_visits cfg dir es clock svc0 svc"
      and "api_calls_used svc0 \<le> max_api_calls_per_incident cfg"
  shows "api_calls_used svc \<le> max_api_calls_per_incident cfg"
  using assms
proof (induction rule: traversal_visits.induct)
  case visits_start
  then show ?case by simp
next
  case (visits_step svc r svc')
  from visits_step.hyps(2) have "api_calls_used svc < max_api_calls_per_incident cfg"
    by (simp add: loop_condition_def)
  with loop_body_api_step [OF visits_step.hyps(3)] show ?case by auto
qed

lemma traversal_result_visited:
  "traversal_visits cfg dir es clock svc0 svc \<Longrightarrow>
   traversal_visits cfg dir es clock svc0 (snd (recursive_traversal cfg dir es clock svc))"
proof (induction cfg dir es clock svc rule: recursive_traversal.induct)
  case (1 cfg dir es clock svc)
  show ?case
  proof (cases "loop_condition cfg svc")
    case False
    then show ?thesis using "1.prems" by (simp add: recursive_traversal.simps)
  next
    case True
    obtain r svc' where b: "loop_body cfg dir es clock svc = (r, svc')"
      by (cases "loop_body cfg dir es clock svc") auto
    have v: "traversal_visits cfg dir es clock svc0 svc'"
      using "1.prems" True b by (rule visits_step)
    show ?thesis
    proof (cases r)
      case None
      with "1.IH" [OF True _ _ v] b True show ?thesis
        by (simp add: recursive_traversal.simps [of cfg dir es clock svc])
    next
      case (Some e)
      with v b True show ?thesis
        by (simp add: recursive_traversal.simps [of cfg dir es clock svc])
    qed
  qed
qed

text \<open>
  C8. Starting the traversal with \<open>api_calls_used\<close> within the budget (it starts at 0),
  every state the loop passes through has \<open>api_calls_used \<le> max_api_calls\<close>: an
  iteration is entered only with the counter strictly below the budget, it adds at most
  one to it, and the state in which the loop is left (normally or by an exception) is
  within the budget too.
\<close>

theorem api_budget_respected:
  assumes "api_calls_used svc0 \<le> max_api_calls_per_incident cfg"
  shows "(\<forall>svc. traversal_visits cfg dir es clock svc0 svc \<longrightarrow>
            api_calls_used svc \<le> max_api_calls_per_incident cfg
          \<and> (loop_condition cfg svc \<longrightarrow>
               api_calls_used svc < max_api_calls_per_incident cfg
             \<and> (api_calls_used (snd (loop_body cfg dir es clock svc)) = api_calls_used svc
                \<or> api_calls_used (snd (loop_body cfg dir es clock svc))
                   = api_calls_used svc + 1)))
       \<and> api_calls_used (snd (recursive_traversal cfg dir es clock svc0))
           \<le> max_api_calls_per_incident cfg"
proof (intro conjI allI impI)
  fix svc assume v: "traversal_visits cfg dir es clock svc0 svc"
  show "api_calls_used svc \<le> max_api_calls_per_incident cfg"
    using v assms by (rule visits_budget)
  show "api_calls_used svc < max_api_calls_per_incident cfg" if "loop_condition cfg svc"
    using that by (simp add: loop_condition_def)
  show "api_calls_used (snd (loop_body cfg dir es clock svc)) = api_calls_used svc
      \<or> api_calls_used (snd (loop_body cfg dir es clock svc)) = api_calls_used svc + 1"
    using loop_body_api_step [of cfg dir es clock svc]
    by (cases "loop_body cfg dir es clock svc") auto
next
  have "traversal_visits cfg dir es clock svc0
          (snd (recursive_traversal cfg dir es clock svc0))"
    by (rule traversal_result_visited) (rule visits_start)
  then show "api_calls_used (snd (recursive_traversal cfg dir es clock svc0))
             \<le> max_api_calls_per_incident cfg"
    using assms by (rule visits_budget)
qed

theorem api_budget_respected_witness:
  "api_calls_used seed_service \<le> max_api_calls_per_incident default_settings
   \<and> api_calls_used seed_service < max_api_calls_per_incident default_settings
   \<and> api_calls_used
       (snd (recursive_traversal default_settings known_addresses scenario_client no_clock
               seed_service)) \<le> 25"
proof -
  have h: "api_calls_used seed_service \<le> max_api_calls_per_incident default_settings"
    by (simp add: seed_service_api default_settings_def)
  have m: "max_api_calls_per_incident default_settings = 25"
    by (simp add: default_settings_def)
  from api_budget_respected [OF h, of known_addresses scenario_client no_clock] h m
  show ?thesis by (simp add: seed_service_api)
qed



section \<open>The filtering pipeline\<close>

text \<open>
  C1. The scenario of the specification: an incident whose stolen amount is 5 (the seed
  edge carries it) and three outgoing transactions of the hacker of 0.10, 0.06 and 0.04.
  \<open>_get_total_stolen_amount\<close> answers 100 whatever the incident is, so the percentage
  test is made against 100 with the 0.5 percent minimum, and the pipeline returns the
  empty list, not the two transactions of 0.10 and 0.06.
\<close>

theorem filter_thresholds_scenario:
  "map (map_option value_eth_of \<circ> normalize_transaction) scenario_txs
     = [Some (10 / 100), Some (6 / 100), Some (4 / 100)]
   \<and> map (e_value_eth \<circ> snd) (edges (graph seed_service)) = [5]
   \<and> get_total_stolen_amount seed_service = 100
   \<and> apply_filtering_pipeline default_settings scenario_client seed_service scenario_txs
        hacker_addr 1 = Inr []"
  by code_simp

text \<open>
  With the incident's own amount in place of the constant, the primary conditions keep
  the first two transactions, as the specification's scenario expects.
\<close>

lemma primary_keeps_with_incident_amount:
  "map (primary_keeps default_settings 5 hacker_addr)
     (List.map_filter normalize_transaction scenario_txs) = [True, True, False]
   \<and> map (primary_keeps default_settings (get_total_stolen_amount seed_service) hacker_addr)
       (List.map_filter normalize_transaction scenario_txs) = [False, False, False]"
  by code_simp

text \<open>
  The score the secondary loop computes is the value-bucket base (50, 30, 20 or 10) plus
  10 for a round amount and 15 for a gas price above 20 gwei, capped at 100, plus 20 when
  the destination's visit count has reached the reuse threshold. Whatever the tests
  answer, it lies between 10 and 95.
\<close>

lemma secondary_priority_range:
  "10 \<le> secondary_priority cfg svc tx \<and> secondary_priority cfg svc tx \<le> 95"
  by (auto simp: secondary_priority_def calculate_priority_score_def Let_def
           split: option.splits)


section \<open>Dead-end removal\<close>

lemma remove_node_alt:
  "remove_node g n
   = \<lparr> nodes = filter (\<lambda>p. fst p \<noteq> n) (nodes g),
       edges = filter (\<lambda>p. fst (fst p) \<noteq> n \<and> snd (fst p) \<noteq> n) (edges g) \<rparr>"
  by (auto simp: remove_node_def AList.delete_eq intro!: filter_cong)

lemma fold_remove_node:
  "fold (\<lambda>node g. remove_node g node) ns g
   = \<lparr> nodes = filter (\<lambda>p. fst p \<notin> set ns) (nodes g),
       edges = filter (\<lambda>p. fst (fst p) \<notin> set ns \<and> snd (fst p) \<notin> set ns) (edges g) \<rparr>"
proof (induction ns arbitrary: g)
  case Nil
  then show ?case by simp
next
  case (Cons n ns)
  have "fold (\<lambda>node g. remove_node g node) (n # ns) g
        = fold (\<lambda>node g. remove_node g node) ns (remove_node g n)"
    by simp
  also have "\<dots> = \<lparr> nodes = filter (\<lambda>p. fst p \<notin> set ns) (nodes (remove_node g n)),
       edges = filter (\<lambda>p. fst (fst p) \<notin> set ns \<and> snd (fst p) \<notin> set ns)
                 (edges (remove_node g n)) \<rparr>"
    by (rule Cons.IH)
  also have "\<dots> = \<lparr> nodes = filter (\<lambda>p. fst p \<notin> set (n # ns)) (nodes g),
       edges = filter (\<lambda>p. fst (fst p) \<notin> set (n # ns) \<and> snd (fst p) \<notin> set (n # ns))
                 (edges g) \<rparr>"
    by (auto simp: remove_node_alt intro!: filter_cong)
  finally show ?case .
qed

lemma in_nodes_to_remove:
  assumes "distinct (map fst (nodes g))" "(n, d) \<in> set (nodes g)"
  shows "n \<in> set (nodes_to_remove g) \<longleftrightarrow> dead_end g n d"
proof
  assume "n \<in> set (nodes_to_remove g)"
  then obtain d' where "(n, d') \<in> set (nodes g)" "dead_end g n d'"
    by (auto simp: nodes_to_remove_def)
  moreover from assms this(1) have "d' = d" by (meson eq_key_imp_eq_value)
  ultimately show "dead_end g n d" by simp
next
  assume "dead_end g n d"
  with assms(2) show "n \<in> set (nodes_to_remove g)"
    by (force simp: nodes_to_remove_def)
qed

text \<open>
  C5 (as the code has it). \<open>_remove_dead_ends\<close> makes one pass: it removes exactly the
  nodes that, in the graph it is given, have no outgoing edge, no (or an empty)
  termination reason and an entity type other than CEX, DEX and Mixer, together with the
  edges that touch them; nothing else of the service changes. The pass is not repeated,
  and the seeds are treated like any other node.
\<close>

theorem remove_dead_ends_single_pass:
  assumes "distinct (map fst (nodes (graph svc)))"
  shows "nodes (graph (remove_dead_ends svc))
           = filter (\<lambda>(n, d). \<not> dead_end (graph svc) n d) (nodes (graph svc))
       \<and> edges (graph (remove_dead_ends svc))
           = filter (\<lambda>((u, v), d). u \<notin> set (nodes_to_remove (graph svc))
                                  \<and> v \<notin> set (nodes_to_remove (graph svc)))
               (edges (graph svc))
       \<and> remove_dead_ends svc = svc\<lparr> graph := graph (remove_dead_ends svc) \<rparr>"
proof -
  have "filter (\<lambda>p. fst p \<notin> set (nodes_to_remove (graph svc))) (nodes (graph svc))
        = filter (\<lambda>(n, d). \<not> dead_end (graph svc) n d) (nodes (graph svc))"
    using in_nodes_to_remove [OF assms] by (intro filter_cong) auto
  then show ?thesis
    by (auto simp: remove_dead_ends_def dead_ends_removed_def fold_remove_node
             intro!: filter_cong)
qed

theorem remove_dead_ends_single_pass_witness:
  "distinct (map fst (nodes (graph (snd skipped_run))))
   \<and> nodes (graph (remove_dead_ends (snd skipped_run)))
       = filter (\<lambda>(n, d). \<not> dead_end (graph (snd skipped_run)) n d)
           (nodes (graph (snd skipped_run)))
   \<and> map fst (nodes (graph (remove_dead_ends (snd skipped_run)))) = [victim_addr]"
proof -
  have h: "distinct (map fst (nodes (graph (snd skipped_run))))"
    by (simp add: skipped_run_graph seed_graph_distinct)
  have e: "map fst (filter (\<lambda>(n, d). \<not> dead_end seed_graph n d) (nodes seed_graph))
           = [victim_addr]"
    by code_simp
  from remove_dead_ends_single_pass [OF h] h e show ?thesis
    by (simp add: skipped_run_graph)
qed

text \<open>
  The claim as the specification states it fails on the run with \<open>max_depth\<close> 1, which
  returns normally with the hacker never expanded: the pass removes the hacker seed, and
  it leaves the victim seed as a new dead end that a repeated pass would remove.
\<close>

theorem dead_end_counterexample:
  "fst skipped_run = None
   \<and> \<not> has_node (graph (remove_dead_ends (snd skipped_run))) hacker_addr
   \<and> nodes_to_remove (graph (remove_dead_ends (snd skipped_run))) = [victim_addr]"
proof -
  have g: "graph (remove_dead_ends (snd skipped_run)) = dead_ends_removed seed_graph"
    by (simp add: remove_dead_ends_def skipped_run_graph)
  have "\<not> has_node (dead_ends_removed seed_graph) hacker_addr
        \<and> nodes_to_remove (dead_ends_removed seed_graph) = [victim_addr]"
    by code_simp
  then show ?thesis by (simp add: g skipped_run_returns)
qed

section \<open>Edges of the working graph\<close>

text \<open>
  The graph starts empty and gets its edges through \<open>_add_graph_edge\<close> only, so the
  ordered pairs of its edge list are distinct after initialization and stay distinct in
  every state the traversal passes through.
\<close>

lemma edges_add_graph_node [simp]: "edges (add_graph_node g a d kw) = edges g"
  by (simp add: add_graph_node_def add_node_def)

lemma edges_update_node [simp]: "edges (update_node g a upd) = edges g"
  by (simp add: update_node_def split: option.splits)

lemma distinct_edges_add_graph_edge:
  "distinct (map fst (edges g)) \<Longrightarrow> distinct (map fst (edges (add_graph_edge g u v attr)))"
  by (simp add: add_graph_edge_def add_edge_def distinct_update)

lemma distinct_edges_process_transaction:
  "distinct (map fst (edges (graph s))) \<Longrightarrow>
   distinct (map fst (edges (graph (process_transaction cfg s tx a d))))"
  by (simp add: process_transaction_def Let_def distinct_edges_add_graph_edge)

lemma distinct_edges_fold_process_transaction:
  "distinct (map fst (edges (graph s))) \<Longrightarrow>
   distinct (map fst (edges (graph
      (fold (\<lambda>tx_data s. process_transaction cfg s tx_data a d) txs s))))"
  by (induction txs arbitrary: s) (simp_all add: distinct_edges_process_transaction)

lemma edges_check_termination_conditions [simp]:
  "edges (graph (check_termination_conditions dir s a n m)) = edges (graph s)"
  by (simp add: check_termination_conditions_def Let_def split: prod.splits)

lemma distinct_edges_process_node:
  assumes "distinct (map fst (edges (graph s)))"
      and "process_node cfg dir es s a d = (r, s')"
  shows "distinct (map fst (edges (graph s')))"
  using assms
  by (auto simp: process_node_def Let_def split: fetch.splits sum.splits if_splits
           intro!: distinct_edges_fold_process_transaction)

lemma distinct_edges_loop_body:
  assumes "distinct (map fst (edges (graph s)))"
      and "loop_body cfg dir es clock s = (r, s')"
  shows "distinct (map fst (edges (graph s')))"
proof -
  have "distinct (map fst (edges (graph x)))"
    if "process_node cfg dir es (s\<lparr>pending_nodes := q\<rparr>) a d = (e, x)" for q a d e x
    using that assms(1) by (intro distinct_edges_process_node [OF _ that]) simp
  then show ?thesis
    using assms
    by (auto simp: loop_body_def Let_def
             split: if_splits list.splits prod.splits option.splits)
qed

lemma traversal_edges_distinct:
  assumes "traversal_visits cfg dir es clock svc0 svc"
      and "distinct (map fst (edges (graph svc0)))"
  shows "distinct (map fst (edges (graph svc)))"
  using assms
proof (induction rule: traversal_visits.induct)
  case visits_start
  then show ?case by simp
next
  case (visits_step svc r svc')
  then have "distinct (map fst (edges (graph svc)))" by simp
  from distinct_edges_loop_body [OF this visits_step.hyps(3)]
  show ?case .
qed

lemma initialize_graph_edges_distinct:
  "initialize_graph incident_id inc tx_details svc = Inr svc' \<Longrightarrow>
   distinct (map fst (edges (graph svc')))"
  by (auto simp: initialize_graph_def Let_def add_graph_edge_def add_edge_def empty_graph_def
                 add_graph_node_def add_node_def
           split: option.splits list.splits)



lemma pick_same [simp]: "pick x x = x"
  by (cases x) (simp_all add: pick_def)

lemma update_edge_data_same [simp]: "update_edge_data d d = d"
  by (simp add: update_edge_data_def)






section \<open>Post-processing twice\<close>


lemma entity_groups_fold: "entity_groups g = fold group_step (nodes g) []"
  by (simp add: entity_groups_def)

lemma entity_members_in: "entity_members g k = members_in (nodes g) k"
  by (simp add: entity_members_def)

lemma group_step_distinct:
  "distinct (map fst acc) \<Longrightarrow> distinct (map fst (group_step x acc))"
  by (cases x) (simp add: group_step_def group_append_def distinct_update split: option.splits)

lemma fold_group_step_distinct:
  "distinct (map fst acc) \<Longrightarrow> distinct (map fst (fold group_step xs acc))"
  by (induction xs arbitrary: acc) (simp_all add: group_step_distinct)

lemma map_of_group_append:
  "map_of (group_append k' n acc) k
   = (if k = k' then Some ((case map_of acc k of None \<Rightarrow> [] | Some ns \<Rightarrow> ns) @ [n])
      else map_of acc k)"
  by (simp add: group_append_def update_conv')

lemma map_of_fold_group_step:
  "map_of (fold group_step xs acc) k
   = (if members_in xs k = [] then map_of acc k
      else Some ((case map_of acc k of None \<Rightarrow> [] | Some ns \<Rightarrow> ns) @ members_in xs k))"
proof (induction xs arbitrary: acc)
  case Nil
  then show ?case by (simp add: members_in_def)
next
  case (Cons x xs)
  obtain n d where x: "x = (n, d)" by (cases x)
  show ?case
  proof (cases "entity_key d")
    case None
    then show ?thesis using Cons.IH [of acc]
      by (simp add: x group_step_def members_in_def)
  next
    case (Some k')
    have s: "fold group_step (x # xs) acc = fold group_step xs (group_append k' n acc)"
      by (simp add: x group_step_def Some)
    have m: "members_in (x # xs) k
             = (if k = k' then n # members_in xs k else members_in xs k)"
      by (simp add: x Some members_in_def)
    show ?thesis
      unfolding s m Cons.IH [of "group_append k' n acc"] map_of_group_append
      by auto
  qed
qed

lemma entity_groups_members:
  assumes "(k, ns) \<in> set (entity_groups g)"
  shows "ns = entity_members g k"
proof -
  have "distinct (map fst (entity_groups g))"
    unfolding entity_groups_fold by (rule fold_group_step_distinct) simp
  with assms have "map_of (entity_groups g) k = Some ns" by simp
  then show ?thesis
    unfolding entity_groups_fold entity_members_in
    by (simp add: map_of_fold_group_step split: if_splits)
qed

lemma members_in_groups:
  assumes "entity_members g k \<noteq> []"
  shows "(k, entity_members g k) \<in> set (entity_groups g)"
proof -
  have "map_of (entity_groups g) k = Some (entity_members g k)"
    using assms unfolding entity_groups_fold entity_members_in
    by (simp add: map_of_fold_group_step)
  then show ?thesis by (rule map_of_SomeD)
qed

lemma entity_key_empty_node [simp]: "entity_key empty_node = None"
  by (simp add: entity_key_def empty_node_def)

lemma members_in_append [simp]: "members_in (xs @ ys) k = members_in xs k @ members_in ys k"
  by (simp add: members_in_def)

lemma members_in_ensure_node [simp]: "members_in (ensure_node n ns) k = members_in ns k"
  by (simp add: ensure_node_def members_in_def split: option.splits)

lemma entity_members_add_edge [simp]:
  "entity_members (add_edge g u v a) k = entity_members g k"
  by (simp add: entity_members_in add_edge_def)

lemma entity_members_remove_node:
  "entity_members (remove_node g n) k = filter (\<lambda>m. m \<noteq> n) (entity_members g k)"
proof -
  have "filter (\<lambda>(n', d). entity_key d = Some k) (filter (\<lambda>(k', _). n \<noteq> k') (nodes g))
        = filter ((\<lambda>m. m \<noteq> n) \<circ> fst) (filter (\<lambda>(n', d). entity_key d = Some k) (nodes g))"
    by (auto intro!: filter_cong)
  then show ?thesis
    by (simp add: entity_members_def members_in_def remove_node_def AList.delete_eq
                  filter_map)
qed

lemma members_in_update_same_key:
  assumes "map_of ns m = Some d" "entity_key d' = entity_key d"
  shows "members_in (AList.update m d' ns) k = members_in ns k"
  using assms
  by (induction ns) (auto simp: members_in_def)

lemma entity_members_update_node:
  assumes "\<And>d. entity_key (upd d) = entity_key d"
  shows "entity_members (update_node g m upd) k = entity_members g k"
  by (auto simp: update_node_def entity_members_in members_in_update_same_key assms
           split: option.splits)

lemma entity_members_redirect_incoming [simp]:
  "entity_members (redirect_incoming master addr g) k = entity_members g k"
proof -
  have "entity_members (fold (\<lambda>pred h.
             if pred \<noteq> master
             then (case map_of (edges h) (pred, addr) of
                     None \<Rightarrow> h
                   | Some edge_attrs \<Rightarrow> add_edge h pred master edge_attrs)
             else h) ps h0) k = entity_members h0 k" for ps h0
    by (induction ps arbitrary: h0) (simp_all split: option.splits)
  then show ?thesis by (simp add: redirect_incoming_def)
qed

lemma entity_members_redirect_outgoing [simp]:
  "entity_members (redirect_outgoing master addr g) k = entity_members g k"
proof -
  have "entity_members (fold (\<lambda>succ h.
             if succ \<noteq> master
             then (case map_of (edges h) (addr, succ) of
                     None \<Rightarrow> h
                   | Some edge_attrs \<Rightarrow> add_edge h master succ edge_attrs)
             else h) ps h0) k = entity_members h0 k" for ps h0
    by (induction ps arbitrary: h0) (simp_all split: option.splits)
  then show ?thesis by (simp add: redirect_outgoing_def)
qed

lemma entity_members_fold_others:
  "entity_members (fold (\<lambda>addr h.
                   remove_node
                     (redirect_outgoing master addr (redirect_incoming master addr h))
                     addr) others g) k
   = filter (\<lambda>m. m \<notin> set others) (entity_members g k)"
proof (induction others arbitrary: g)
  case Nil
  then show ?case by simp
next
  case (Cons a others)
  show ?case
    by (simp add: Cons.IH entity_members_remove_node conj_commute)
qed

lemma entity_members_consolidate_address_group:
  "entity_members (consolidate_address_group g addresses name) k
   = (if length addresses < 2 then entity_members g k
      else filter (\<lambda>m. m \<notin> set (tl addresses)) (entity_members g k))"
  by (simp add: consolidate_address_group_def Let_def entity_members_fold_others
                entity_members_update_node entity_key_def)


lemma entity_members_merge_group:
  "entity_members (merge_group (name, addresses) h) k
   = filter (\<lambda>m. m \<notin> (if length addresses > 1 then set (tl addresses) else {}))
       (entity_members h k)"
  by (auto simp: merge_group_def entity_members_consolidate_address_group)

lemma entity_members_fold_groups:
  "entity_members (fold merge_group groups g) k
   = filter (\<lambda>m. m \<notin> removed_by groups) (entity_members g k)"
proof (induction groups arbitrary: g)
  case Nil
  then show ?case by (simp add: removed_by_def)
next
  case (Cons x groups)
  obtain name addresses where x: "x = (name, addresses)" by (cases x)
  have r: "removed_by (x # groups)
           = (if length addresses > 1 then set (tl addresses) else {}) \<union> removed_by groups"
    by (simp add: removed_by_def x)
  have "entity_members (fold merge_group (x # groups) g) k
        = entity_members (fold merge_group groups (merge_group (name, addresses) g)) k"
    by (simp add: x)
  also have "\<dots> = filter (\<lambda>m. m \<notin> removed_by groups)
                      (entity_members (merge_group (name, addresses) g) k)"
    by (rule Cons.IH)
  also have "\<dots> = filter (\<lambda>m. m \<notin> removed_by (x # groups)) (entity_members g k)"
    unfolding entity_members_merge_group r by (auto intro!: filter_cong)
  finally show ?case .
qed

lemma entities_consolidated_members:
  "length (entity_members (entities_consolidated g) k) \<le> 1"
proof -
  let ?ms = "entity_members g k"
  have e: "entity_members (entities_consolidated g) k
           = filter (\<lambda>m. m \<notin> removed_by (entity_groups g)) ?ms"
    unfolding entities_consolidated_def by (rule entity_members_fold_groups)
  show ?thesis
  proof (cases "length ?ms > 1")
    case False
    have "length (filter (\<lambda>m. m \<notin> removed_by (entity_groups g)) ?ms) \<le> length ?ms"
      by (rule length_filter_le)
    with False show ?thesis unfolding e by linarith
  next
    case True
    then have ne: "?ms \<noteq> []" by auto
    then have "(k, ?ms) \<in> set (entity_groups g)" by (rule members_in_groups)
    with True have sub: "set (tl ?ms) \<subseteq> removed_by (entity_groups g)"
      by (force simp: removed_by_def)
    obtain m ms where ms: "?ms = m # ms" using ne by (cases ?ms) auto
    from sub ms have "filter (\<lambda>m. m \<notin> removed_by (entity_groups g)) ms = []"
      by (auto simp: filter_empty_conv)
    then show ?thesis by (simp add: e ms)
  qed
qed

lemma fold_groups_small:
  assumes "\<And>name addresses. (name, addresses) \<in> set groups \<Longrightarrow> length addresses \<le> 1"
  shows "fold merge_group groups g = g"
  using assms
proof (induction groups arbitrary: g)
  case Nil
  then show ?case by simp
next
  case (Cons x groups)
  obtain name addresses where x: "x = (name, addresses)" by (cases x)
  have "length addresses \<le> 1" using Cons.prems [of name addresses] by (simp add: x)
  then have m: "merge_group x g = g" by (simp add: x merge_group_def)
  have "fold merge_group groups g = g"
  proof (rule Cons.IH)
    fix name addresses
    assume "(name, addresses) \<in> set groups"
    then show "length addresses \<le> 1" using Cons.prems [of name addresses] by simp
  qed
  with m show ?case by simp
qed

lemma entities_consolidated_id:
  assumes "\<And>k. length (entity_members g k) \<le> 1"
  shows "entities_consolidated g = g"
  unfolding entities_consolidated_def
proof (rule fold_groups_small)
  fix name addresses
  assume "(name, addresses) \<in> set (entity_groups g)"
  then have "addresses = entity_members g name" by (rule entity_groups_members)
  with assms show "length addresses \<le> 1" by simp
qed

lemma annotate_flow_idem [simp]:
  "annotate_flow t (annotate_flow t d) = annotate_flow t d"
  by (simp add: annotate_flow_def Let_def)

lemma flows_annotated_idem [simp]:
  "flows_annotated t (flows_annotated t g) = flows_annotated t g"
  by (simp add: flows_annotated_def comp_def case_prod_unfold)

lemma entity_members_flows_annotated [simp]:
  "entity_members (flows_annotated t g) k = entity_members g k"
  by (simp add: entity_members_def flows_annotated_def)

lemma dead_ends_removed_none: "nodes_to_remove g = [] \<Longrightarrow> dead_ends_removed g = g"
  by (simp add: dead_ends_removed_def)

lemma graph_optimize_graph:
  "graph (optimize_graph svc)
   = flows_annotated 100 (entities_consolidated (dead_ends_removed (graph svc)))"
  by (simp add: optimize_graph_def analyze_flows_def consolidate_entities_def
                remove_dead_ends_def get_total_stolen_amount_def Let_def)

lemma optimize_graph_other_fields:
  "optimize_graph svc = svc\<lparr> graph := graph (optimize_graph svc) \<rparr>"
  by (simp add: optimize_graph_def analyze_flows_def consolidate_entities_def
                remove_dead_ends_def get_total_stolen_amount_def Let_def)

text \<open>
  C6 (as the code has it). Running \<open>_optimize_graph\<close> a second time leaves the service,
  and with it the graph, exactly as the first run left it whenever the graph produced by
  the first run holds no node that dead-end removal would remove. Consolidation and flow
  annotation change nothing the second time; only the single-pass dead-end removal can.
\<close>

theorem optimize_graph_idempotent_when_pruned:
  assumes "nodes_to_remove (graph (optimize_graph svc)) = []"
  shows "optimize_graph (optimize_graph svc) = optimize_graph svc"
proof -
  let ?gc = "entities_consolidated (dead_ends_removed (graph svc))"
  let ?g1 = "flows_annotated 100 ?gc"
  have g1: "graph (optimize_graph svc) = ?g1" by (rule graph_optimize_graph)
  have p: "dead_ends_removed ?g1 = ?g1"
    using assms unfolding g1 by (rule dead_ends_removed_none)
  have "length (entity_members ?g1 k) \<le> 1" for k
    using entities_consolidated_members [of "dead_ends_removed (graph svc)" k] by simp
  then have c: "entities_consolidated ?g1 = ?g1" by (rule entities_consolidated_id)
  have "graph (optimize_graph (optimize_graph svc))
        = flows_annotated 100 (entities_consolidated (dead_ends_removed ?g1))"
    unfolding graph_optimize_graph ..
  also have "\<dots> = ?g1" by (simp add: p c)
  finally have "graph (optimize_graph (optimize_graph svc)) = graph (optimize_graph svc)"
    by (simp add: g1)
  then show ?thesis
    using optimize_graph_other_fields [of "optimize_graph svc"] by simp
qed


lemma scenario_graph_optimized:
  "nodes_to_remove
     (flows_annotated 100 (entities_consolidated (dead_ends_removed scenario_graph))) = []
   \<and> map fst (nodes (flows_annotated 100
                         (entities_consolidated (dead_ends_removed scenario_graph))))
     = [victim_addr, hacker_addr]"
  by code_simp

theorem optimize_graph_idempotent_when_pruned_witness:
  "nodes_to_remove (graph (optimize_graph (snd scenario_run))) = []
   \<and> map fst (nodes (graph (optimize_graph (snd scenario_run))))
     = [victim_addr, hacker_addr]
   \<and> optimize_graph (optimize_graph (snd scenario_run)) = optimize_graph (snd scenario_run)"
proof -
  have h: "nodes_to_remove (graph (optimize_graph (snd scenario_run))) = []"
    using scenario_graph_optimized by (simp add: graph_optimize_graph scenario_run_graph)
  have n: "map fst (nodes (graph (optimize_graph (snd scenario_run))))
           = [victim_addr, hacker_addr]"
    using scenario_graph_optimized by (simp add: graph_optimize_graph scenario_run_graph)
  from optimize_graph_idempotent_when_pruned [OF h] h n show ?thesis by blast
qed

text \<open>
  The claim as the specification states it fails on the run with \<open>max_depth\<close> 1, which
  returns normally with the hacker never expanded: the first run of the post-processor
  removes the hacker seed and leaves the victim without outgoing edge, and the second
  run removes the victim too.
\<close>

theorem optimize_twice_counterexample:
  "fst skipped_run = None
   \<and> graph (optimize_graph (optimize_graph (snd skipped_run)))
       \<noteq> graph (optimize_graph (snd skipped_run))"
proof -
  have "flows_annotated 100 (entities_consolidated (dead_ends_removed
          (flows_annotated 100 (entities_consolidated (dead_ends_removed seed_graph)))))
        \<noteq> flows_annotated 100 (entities_consolidated (dead_ends_removed seed_graph))"
    by code_simp
  then show ?thesis by (simp add: graph_optimize_graph skipped_run_graph skipped_run_returns)
qed

end
